theory Spec2Isabelle
  imports Complex_Main "HOL-Library.Word"
begin

unbundle bit_operations_syntax

chapter \<open>Grainy: the grain synthesis of GrainCanvas, embedded in HOL\<close>

text \<open>
  The development follows \<^verbatim>\<open>src/components/GrainCanvas.tsx\<close> (the seeded renderer that
  the application imports), \<^verbatim>\<open>src/types.ts\<close>, the settings handling of the application
  component and the recipe service.

  JavaScript numbers are IEEE doubles. Three readings are used, each where it is exact:
  \<^item> the 32-bit integer operations of the generator (\<^verbatim>\<open>^\<close>, \<^verbatim>\<open>|\<close>, \<^verbatim>\<open>>>>\<close>,
    \<^verbatim>\<open>Math.imul\<close>) are operations on \<^typ>\<open>32 word\<close>;
  \<^item> the generator's closure variable \<^verbatim>\<open>s\<close> is a double that holds an integer; it is an
    \<^typ>\<open>int\<close>, and the rounding of a double addition to 53 significant bits is written
    out (\<open>to_double\<close>);
  \<^item> every other number is a \<^typ>\<open>real\<close>: the rounding of the fractional arithmetic is
    left out, and the one place where the source can divide by zero has the IEEE
    special values written out (\<open>jsnum\<close>).
\<close>

section \<open>The seeded generator\<close>

type_synonym int32 = "32 word"

text \<open>The number of binary digits of a natural number.\<close>

fun bitlen :: "nat \<Rightarrow> nat" where
  "bitlen n = (if n = 0 then 0 else Suc (bitlen (n div 2)))"

declare bitlen.simps [simp del]

text \<open>
  Rounding an integer to a multiple of \<open>2 ^ j\<close>, to the nearest one, a tie going to the
  even multiple.
\<close>

definition round_ties_even :: "int \<Rightarrow> nat \<Rightarrow> int" where
  "round_ties_even x j =
     (let m = 2 ^ j; q = x div m; r = x mod m
      in if 2 * r < m then q * m
         else if m < 2 * r then (q + 1) * m
         else if even q then q * m else (q + 1) * m)"

text \<open>
  The double nearest to an integer: a double has 53 significant bits, so an integer of
  \<open>53 + j\<close> bits is rounded to a multiple of \<open>2 ^ j\<close>. The sum of two doubles that hold
  integers is the rounding of the exact sum.
\<close>

definition to_double :: "int \<Rightarrow> int" where
  "to_double x = round_ties_even x (bitlen (nat \<bar>x\<bar>) - 53)"

text \<open>\<^verbatim>\<open>Math.imul\<close>: the low 32 bits of the product.\<close>

definition imul :: "int32 \<Rightarrow> int32 \<Rightarrow> int32" where
  "imul a b = a * b"

text \<open>
  \<^verbatim>\<open>createRandom(seed)\<close> returns a closure over \<^verbatim>\<open>let s = seed\<close>. The closure is the
  function \<open>rng\<close> on the value of \<^verbatim>\<open>s\<close>: it returns the number drawn and the new value
  of \<^verbatim>\<open>s\<close>.
  \<^verbatim>\<open>
    let t = (s += 0x6d2b79f5);
    t = Math.imul(t ^ (t >>> 15), t | 1);
    t ^= t + Math.imul(t ^ (t >>> 7), t | 61);
    return ((t ^ (t >>> 14)) >>> 0) / 4294967296;
  \<close>
  The bit operators first convert their operand with ToInt32 or ToUint32, which for a
  double holding an integer is the residue modulo \<open>2 ^ 32\<close>: \<open>word_of_int\<close>.
\<close>

definition createRandom :: "int \<Rightarrow> int" where
  "createRandom seed = seed"

definition rng :: "int \<Rightarrow> real \<times> int" where
  "rng s =
     (let s' = to_double (s + 0x6d2b79f5);
          t = (word_of_int s' :: int32);
          t = imul (t XOR drop_bit 15 t) (t OR 1);
          t = t XOR (t + imul (t XOR drop_bit 7 t) (t OR 61))
      in (real (unat (t XOR drop_bit 14 t)) / 4294967296, s'))"

text \<open>The value of \<^verbatim>\<open>s\<close> after \<open>k\<close> calls, and the number the call of index \<open>k\<close> returns.\<close>

definition advance :: "nat \<Rightarrow> int \<Rightarrow> int" where
  "advance k s = ((\<lambda>s. snd (rng s)) ^^ k) s"

definition draw :: "nat \<Rightarrow> int \<Rightarrow> real" where
  "draw k s = fst (rng (advance k s))"

subsection \<open>Mulberry32 as the specification describes it\<close>

text \<open>
  Written from the specification's words, to compare with \<open>rng\<close>: a 32-bit state, each
  call adds \<^verbatim>\<open>0x6D2B79F5\<close> (wrapping), two xorshift-multiply rounds, and the 32-bit
  result divided by \<open>2 ^ 32\<close>.
\<close>

definition mulberry32_init :: "int \<Rightarrow> int32" where
  "mulberry32_init seed = word_of_int seed"

definition mulberry32_next :: "int32 \<Rightarrow> real \<times> int32" where
  "mulberry32_next a =
     (let a' = a + 0x6D2B79F5;
          z = (a' XOR drop_bit 15 a') * (a' OR 1);
          z = z XOR (z + (z XOR drop_bit 7 z) * (z OR 61))
      in (real (unat (z XOR drop_bit 14 z)) / 2 ^ 32, a'))"

definition mulberry32_advance :: "nat \<Rightarrow> int32 \<Rightarrow> int32" where
  "mulberry32_advance k a = ((\<lambda>a. snd (mulberry32_next a)) ^^ k) a"

definition mulberry32_draw :: "nat \<Rightarrow> int32 \<Rightarrow> real" where
  "mulberry32_draw k a = fst (mulberry32_next (mulberry32_advance k a))"

section \<open>Settings\<close>

text \<open>\<^verbatim>\<open>GrainTexture\<close> and \<^verbatim>\<open>APP_LIMITS\<close> of \<^verbatim>\<open>types.ts\<close>.\<close>

datatype GrainTexture = UNIFORM | GAUSSIAN | SPECKLE | FILM

definition MAX_DIMENSION :: real where
  "MAX_DIMENSION = 5000"

definition MIN_DIMENSION :: real where
  "MIN_DIMENSION = 1"

text \<open>A JavaScript string is a sequence of UTF-16 code units.\<close>

type_synonym jsstring = "nat list"

definition utf16 :: "string \<Rightarrow> jsstring" where
  "utf16 cs = map of_char cs"

text \<open>
  The settings record, with the fields that \<^verbatim>\<open>GrainCanvas\<close> destructures and that
  \<^verbatim>\<open>DEFAULT_SETTINGS\<close> of the application gives. The seed is an integer.
\<close>

record GrainSettings =
  width :: real
  height :: real
  ppi :: real
  intensity :: real
  scale :: real
  roughness :: real
  opacity :: real
  randomness :: real
  seed :: int
  bgColor :: jsstring
  grainColor :: jsstring
  texture :: GrainTexture
  monochrome :: bool

definition DEFAULT_SETTINGS :: GrainSettings where
  "DEFAULT_SETTINGS =
     \<lparr>width = 1920, height = 1080, ppi = 72, intensity = 0.15, scale = 1, roughness = 0,
      opacity = 1, randomness = 0, seed = 12345, bgColor = utf16 ''#FFFFFF'',
      grainColor = utf16 ''#000000'', texture = UNIFORM, monochrome = True\<rparr>"

text \<open>
  \<^verbatim>\<open>updateSetting(key, value)\<close> of the application: a width or a height is clamped to
  \<^verbatim>\<open>[MIN_DIMENSION, MAX_DIMENSION]\<close>, every other value is stored as it is.
\<close>

datatype setting_update =
    SetWidth real | SetHeight real | SetPpi real | SetIntensity real | SetScale real
  | SetRoughness real | SetOpacity real | SetRandomness real | SetSeed int
  | SetBgColor jsstring | SetGrainColor jsstring | SetTexture GrainTexture | SetMonochrome bool

fun updateSetting :: "setting_update \<Rightarrow> GrainSettings \<Rightarrow> GrainSettings" where
  "updateSetting (SetWidth v) prev = prev\<lparr>width := min (max MIN_DIMENSION v) MAX_DIMENSION\<rparr>"
| "updateSetting (SetHeight v) prev = prev\<lparr>height := min (max MIN_DIMENSION v) MAX_DIMENSION\<rparr>"
| "updateSetting (SetPpi v) prev = prev\<lparr>ppi := v\<rparr>"
| "updateSetting (SetIntensity v) prev = prev\<lparr>intensity := v\<rparr>"
| "updateSetting (SetScale v) prev = prev\<lparr>scale := v\<rparr>"
| "updateSetting (SetRoughness v) prev = prev\<lparr>roughness := v\<rparr>"
| "updateSetting (SetOpacity v) prev = prev\<lparr>opacity := v\<rparr>"
| "updateSetting (SetRandomness v) prev = prev\<lparr>randomness := v\<rparr>"
| "updateSetting (SetSeed v) prev = prev\<lparr>seed := v\<rparr>"
| "updateSetting (SetBgColor v) prev = prev\<lparr>bgColor := v\<rparr>"
| "updateSetting (SetGrainColor v) prev = prev\<lparr>grainColor := v\<rparr>"
| "updateSetting (SetTexture v) prev = prev\<lparr>texture := v\<rparr>"
| "updateSetting (SetMonochrome v) prev = prev\<lparr>monochrome := v\<rparr>"

section \<open>Dimensions\<close>

text \<open>
  \<^verbatim>\<open>
    const finalWidth = Math.min(width, APP_LIMITS.MAX_DIMENSION);
    const finalHeight = Math.min(height, APP_LIMITS.MAX_DIMENSION);
    const noiseScale = Math.max(1, scale);
    const noiseW = Math.ceil(finalWidth / noiseScale);
    const noiseH = Math.ceil(finalHeight / noiseScale);
  \<close>
\<close>

definition finalWidth :: "GrainSettings \<Rightarrow> real" where
  "finalWidth st = min (width st) MAX_DIMENSION"

definition finalHeight :: "GrainSettings \<Rightarrow> real" where
  "finalHeight st = min (height st) MAX_DIMENSION"

definition noiseScale :: "GrainSettings \<Rightarrow> real" where
  "noiseScale st = max 1 (scale st)"

definition noiseW :: "GrainSettings \<Rightarrow> int" where
  "noiseW st = \<lceil>finalWidth st / noiseScale st\<rceil>"

definition noiseH :: "GrainSettings \<Rightarrow> int" where
  "noiseH st = \<lceil>finalHeight st / noiseScale st\<rceil>"

section \<open>Numbers that may be infinite or NaN, and byte stores\<close>

text \<open>
  The mask computation divides by \<^verbatim>\<open>1 - threshold\<close>, which is zero for a randomness
  of 1.25. A double division by zero does not raise: it gives an infinity or NaN, and
  every comparison with NaN is false.
\<close>

datatype jsnum = Num real | PosInfinity | NegInfinity | NaN

definition js_div :: "real \<Rightarrow> real \<Rightarrow> jsnum" where
  "js_div a b =
     (if b \<noteq> 0 then Num (a / b)
      else if 0 < a then PosInfinity
      else if a < 0 then NegInfinity
      else NaN)"

fun js_less :: "jsnum \<Rightarrow> real \<Rightarrow> bool" where
  "js_less (Num a) b = (a < b)"
| "js_less NegInfinity b = True"
| "js_less PosInfinity b = False"
| "js_less NaN b = False"

fun js_greater :: "jsnum \<Rightarrow> real \<Rightarrow> bool" where
  "js_greater (Num a) b = (b < a)"
| "js_greater PosInfinity b = True"
| "js_greater NegInfinity b = False"
| "js_greater NaN b = False"

fun js_times :: "jsnum \<Rightarrow> real \<Rightarrow> jsnum" where
  "js_times (Num a) b = Num (a * b)"
| "js_times PosInfinity b = (if 0 < b then PosInfinity else if b < 0 then NegInfinity else NaN)"
| "js_times NegInfinity b = (if 0 < b then NegInfinity else if b < 0 then PosInfinity else NaN)"
| "js_times NaN b = NaN"

fun js_plus :: "jsnum \<Rightarrow> real \<Rightarrow> jsnum" where
  "js_plus (Num a) b = Num (a + b)"
| "js_plus PosInfinity b = PosInfinity"
| "js_plus NegInfinity b = NegInfinity"
| "js_plus NaN b = NaN"

text \<open>
  A store into a \<^verbatim>\<open>Uint8ClampedArray\<close> (ToUint8Clamp): NaN is stored as 0, the number
  is clamped to \<open>[0, 255]\<close> and rounded to the nearest integer, a tie going to the even
  one.
\<close>

definition ToUint8Clamp :: "real \<Rightarrow> nat" where
  "ToUint8Clamp x =
     (if x \<le> 0 then 0
      else if 255 \<le> x then 255
      else (let f = \<lfloor>x\<rfloor>
            in if x < of_int f + 1 / 2 then nat f
               else if of_int f + 1 / 2 < x then nat (f + 1)
               else if even f then nat f else nat (f + 1)))"

fun ToUint8Clamp_js :: "jsnum \<Rightarrow> nat" where
  "ToUint8Clamp_js (Num x) = ToUint8Clamp x"
| "ToUint8Clamp_js PosInfinity = 255"
| "ToUint8Clamp_js NegInfinity = 0"
| "ToUint8Clamp_js NaN = 0"

section \<open>The grain colour\<close>

text \<open>
  \<^verbatim>\<open>parseInt(str, 16)\<close>: leading white space is skipped, then an optional sign, then an
  optional \<^verbatim>\<open>0x\<close> or \<^verbatim>\<open>0X\<close>; the digits up to the first code unit that is not a
  hexadecimal digit are read; with no digit the result is NaN, here \<open>None\<close>.
\<close>

definition isStrWhiteSpace :: "nat \<Rightarrow> bool" where
  "isStrWhiteSpace c \<longleftrightarrow>
     c \<in> {0x9, 0xA, 0xB, 0xC, 0xD, 0x20, 0xA0, 0x1680, 0x2028, 0x2029, 0x202F, 0x205F,
          0x3000, 0xFEFF} \<or> (0x2000 \<le> c \<and> c \<le> 0x200A)"

definition hexDigit :: "nat \<Rightarrow> nat option" where
  "hexDigit c =
     (if 48 \<le> c \<and> c \<le> 57 then Some (c - 48)
      else if 97 \<le> c \<and> c \<le> 102 then Some (c - 87)
      else if 65 \<le> c \<and> c \<le> 70 then Some (c - 55)
      else None)"

fun stripSign :: "jsstring \<Rightarrow> int \<times> jsstring" where
  "stripSign [] = (1, [])"
| "stripSign (c # cs) = (if c = 45 then (- 1, cs) else if c = 43 then (1, cs) else (1, c # cs))"

fun stripPrefix :: "jsstring \<Rightarrow> jsstring" where
  "stripPrefix (a # b # cs) = (if a = 48 \<and> (b = 120 \<or> b = 88) then cs else a # b # cs)"
| "stripPrefix cs = cs"

definition hexDigits :: "jsstring \<Rightarrow> nat list" where
  "hexDigits cs = map (\<lambda>c. the (hexDigit c)) (takeWhile (\<lambda>c. hexDigit c \<noteq> None) cs)"

definition parseInt16 :: "jsstring \<Rightarrow> int option" where
  "parseInt16 str =
     (let (sign, S) = stripSign (dropWhile isStrWhiteSpace str);
          Z = hexDigits (stripPrefix S)
      in if Z = [] then None
         else Some (sign * int (foldl (\<lambda>acc d. 16 * acc + d) 0 Z)))"

text \<open>\<^verbatim>\<open>str.slice(a, b)\<close> for \<open>0 \<le> a \<le> b\<close>.\<close>

definition slice_js :: "nat \<Rightarrow> nat \<Rightarrow> jsstring \<Rightarrow> jsstring" where
  "slice_js a b str = take (b - a) (drop a str)"

text \<open>
  \<^verbatim>\<open>parseInt(grainColor.slice(a, b), 16) || 0\<close>: NaN and 0 are falsy, and give 0.
\<close>

definition hexChannel :: "jsstring \<Rightarrow> nat \<Rightarrow> nat \<Rightarrow> int" where
  "hexChannel color a b = (case parseInt16 (slice_js a b color) of None \<Rightarrow> 0 | Some n \<Rightarrow> n)"

definition gR :: "GrainSettings \<Rightarrow> int" where
  "gR st = hexChannel (grainColor st) 1 3"

definition gG :: "GrainSettings \<Rightarrow> int" where
  "gG st = hexChannel (grainColor st) 3 5"

definition gB :: "GrainSettings \<Rightarrow> int" where
  "gB st = hexChannel (grainColor st) 5 7"

section \<open>The noise sample of a cell\<close>

text \<open>
  The \<^verbatim>\<open>switch (texture)\<close> of the cell loop. Each call of \<^verbatim>\<open>rng()\<close> advances the
  closure variable, which is threaded through, in the order of evaluation of the source.
  \<^verbatim>\<open>
    case GrainTexture.GAUSSIAN:
      const u = 1 - rng();
      const v = 1 - rng();
      noise = Math.sqrt(-2.0 * Math.log(u)) * Math.cos(2.0 * Math.PI * v);
      noise = (noise + 3) / 6;
    case GrainTexture.SPECKLE:
      noise = rng() > (1 - intensity * 0.8) ? rng() : 0.5;
    case GrainTexture.FILM:
      noise = (rng() + rng() + rng()) / 3;
    case GrainTexture.UNIFORM: default:
      noise = rng();
  \<close>
\<close>

definition sample_noise :: "GrainTexture \<Rightarrow> real \<Rightarrow> int \<Rightarrow> real \<times> int" where
  "sample_noise tex inten s =
     (case tex of
        GAUSSIAN \<Rightarrow>
          (let (r1, s1) = rng s; u = 1 - r1;
               (r2, s2) = rng s1; v = 1 - r2;
               noise = sqrt (- 2 * ln u) * cos (2 * pi * v);
               noise = (noise + 3) / 6
           in (noise, s2))
      | SPECKLE \<Rightarrow>
          (let (r1, s1) = rng s
           in if r1 > 1 - inten * 0.8 then rng s1 else (0.5, s1))
      | FILM \<Rightarrow>
          (let (a, s1) = rng s; (b, s2) = rng s1; (c, s3) = rng s2
           in ((a + b + c) / 3, s3))
      | UNIFORM \<Rightarrow> rng s)"

section \<open>Clumping\<close>

text \<open>
  \<^verbatim>\<open>
    const threshold = randomness * 0.8;
    let mask = (mapVal - threshold) / (1 - threshold);
    if (mask < 0) mask = 0;
    if (mask > 1) mask = 1;
    effect *= (mask * 0.8 + 0.2);
  \<close>
\<close>

definition clump_mask :: "real \<Rightarrow> real \<Rightarrow> jsnum" where
  "clump_mask rand mapVal =
     (let threshold = rand * 0.8;
          mask = js_div (mapVal - threshold) (1 - threshold);
          mask = (if js_less mask 0 then Num 0 else mask);
          mask = (if js_greater mask 1 then Num 1 else mask)
      in mask)"

definition clump_multiplier :: "real \<Rightarrow> real \<Rightarrow> jsnum" where
  "clump_multiplier rand mapVal = js_plus (js_times (clump_mask rand mapVal) 0.8) 0.2"

fun js_times_left :: "real \<Rightarrow> jsnum \<Rightarrow> jsnum" where
  "js_times_left a (Num b) = Num (a * b)"
| "js_times_left a PosInfinity = js_times PosInfinity a"
| "js_times_left a NegInfinity = js_times NegInfinity a"
| "js_times_left a NaN = NaN"

text \<open>
  The block \<^verbatim>\<open>if (clutterData) { const mapVal = clutterData[i] / 255; ... }\<close>. A read
  beyond the end of the array gives \<^verbatim>\<open>undefined\<close>, and every number computed from it
  is NaN.
\<close>

definition apply_clutter :: "nat list option \<Rightarrow> real \<Rightarrow> nat \<Rightarrow> real \<Rightarrow> jsnum" where
  "apply_clutter clutterData rand i effect =
     (case clutterData of
        None \<Rightarrow> Num effect
      | Some cd \<Rightarrow>
          if i < length cd
          then js_times_left effect (clump_multiplier rand (real (cd ! i) / 255))
          else NaN)"

section \<open>The cell loop\<close>

text \<open>
  One turn of \<^verbatim>\<open>for (let i = 0; i < data.length; i += 4)\<close>: the four bytes stored at
  \<open>i\<close>, \<open>i + 1\<close>, \<open>i + 2\<close> and \<open>i + 3\<close>, and the new value of the closure variable.
  \<^verbatim>\<open>
    let effect = noise * intensity;
    ...
    if (monochrome) {
      data[i] = gR; data[i+1] = gG; data[i+2] = gB; data[i+3] = effect * 255;
    } else {
      data[i] = rng() * 255; data[i+1] = rng() * 255; data[i+2] = rng() * 255;
      data[i+3] = effect * 255;
    }
  \<close>
\<close>

definition cell_effect :: "GrainSettings \<Rightarrow> nat list option \<Rightarrow> nat \<Rightarrow> int \<Rightarrow> jsnum \<times> int" where
  "cell_effect st clutterData i s =
     (let (noise, s1) = sample_noise (texture st) (intensity st) s;
          effect = noise * intensity st
      in (apply_clutter clutterData (randomness st) i effect, s1))"

definition noise_cell :: "GrainSettings \<Rightarrow> nat list option \<Rightarrow> nat \<Rightarrow> int \<Rightarrow> nat list \<times> int" where
  "noise_cell st clutterData i s =
     (let (effect, s1) = cell_effect st clutterData i s;
          alpha = ToUint8Clamp_js (js_times effect 255)
      in if monochrome st
         then ([ToUint8Clamp (of_int (gR st)), ToUint8Clamp (of_int (gG st)),
                ToUint8Clamp (of_int (gB st)), alpha], s1)
         else (let (r, s2) = rng s1; (g, s3) = rng s2; (b, s4) = rng s3
               in ([ToUint8Clamp (r * 255), ToUint8Clamp (g * 255), ToUint8Clamp (b * 255),
                    alpha], s4)))"

text \<open>The loop over \<open>n\<close> cells, from the byte index \<open>i\<close>.\<close>

fun fill_noise :: "GrainSettings \<Rightarrow> nat list option \<Rightarrow> nat \<Rightarrow> nat \<Rightarrow> int \<Rightarrow> nat list \<times> int" where
  "fill_noise st clutterData 0 i s = ([], s)"
| "fill_noise st clutterData (Suc n) i s =
     (let (px, s1) = noise_cell st clutterData i s;
          (rest, s2) = fill_noise st clutterData n (i + 4) s1
      in (px @ rest, s2))"

text \<open>
  The loop that fills the low-resolution clutter map:
  \<^verbatim>\<open>
    const val = rng() * 255;
    cData[i] = val; cData[i+1] = val; cData[i+2] = val; cData[i+3] = 255;
  \<close>
\<close>

fun fill_clutter :: "nat \<Rightarrow> int \<Rightarrow> nat list \<times> int" where
  "fill_clutter 0 s = ([], s)"
| "fill_clutter (Suc n) s =
     (let (r, s1) = rng s; val = ToUint8Clamp (r * 255);
          (rest, s2) = fill_clutter n s1
      in ([val, val, val, 255] @ rest, s2))"

section \<open>The canvas\<close>

text \<open>
  The browser's canvas is not part of the repository. Its operations are the fields of
  a record, over any type \<open>'img\<close> of bitmaps; what the standard says of them, and what
  the renderer relies on, is written into the functions below that use them.
\<close>

type_synonym rgba = "nat \<times> nat \<times> nat \<times> real"

record 'img platform =
  mainContext :: bool
  clutterContext :: bool
  smoothContext :: bool
  offscreenContext :: bool
  parseColor :: "jsstring \<Rightarrow> rgba option"
  blankBitmap :: "nat \<Rightarrow> nat \<Rightarrow> 'img"
  fillRect :: "rgba \<Rightarrow> real \<Rightarrow> real \<Rightarrow> 'img \<Rightarrow> 'img"
  drawSmooth :: "nat list \<Rightarrow> int \<Rightarrow> int \<Rightarrow> int \<Rightarrow> int \<Rightarrow> nat list"
  drawNearest :: "real \<Rightarrow> nat list \<Rightarrow> int \<Rightarrow> int \<Rightarrow> real \<Rightarrow> real \<Rightarrow> 'img \<Rightarrow> 'img"
  drawBlurred :: "real \<Rightarrow> 'img \<Rightarrow> 'img"

record 'img canvas =
  canvasWidth :: nat
  canvasHeight :: nat
  bitmap :: 'img
  fillStyle :: rgba

datatype render_error = NoContext | NoOffscreenContext | IndexSizeError | InvalidStateError

text \<open>
  \<^verbatim>\<open>canvas.width\<close> and \<^verbatim>\<open>canvas.height\<close> are attributes of type unsigned long. A
  number assigned to one is first converted: its fraction is dropped (towards zero) and
  the integer is reduced modulo \<open>2 ^ 32\<close>. A result above \<open>2147483647\<close>, as every
  negative integer above \<open>- (2 ^ 31)\<close> gives, is replaced by the default of the
  attribute, 300 for the width and 150 for the height.
\<close>

definition toUnsignedLong :: "real \<Rightarrow> nat" where
  "toUnsignedLong x = nat ((if 0 \<le> x then \<lfloor>x\<rfloor> else \<lceil>x\<rceil>) mod 2 ^ 32)"

definition reflectDimension :: "nat \<Rightarrow> real \<Rightarrow> nat" where
  "reflectDimension dflt x =
     (let v = toUnsignedLong x in if v \<le> 2147483647 then v else dflt)"

text \<open>
  Assigning \<^verbatim>\<open>canvas.width\<close> or \<^verbatim>\<open>canvas.height\<close> replaces the bitmap by a blank
  one of the new dimensions and resets the context to its default state, in which the
  fill style is opaque black.
  \<^verbatim>\<open>
    canvas.width = finalWidth;
    canvas.height = finalHeight;
  \<close>
\<close>

definition setDimensions :: "'img platform \<Rightarrow> real \<Rightarrow> real \<Rightarrow> 'img canvas \<Rightarrow> 'img canvas" where
  "setDimensions P w h c =
     \<lparr>canvasWidth = reflectDimension 300 w, canvasHeight = reflectDimension 150 h,
      bitmap = blankBitmap P (reflectDimension 300 w) (reflectDimension 150 h),
      fillStyle = (0, 0, 0, 1)\<rparr>"

text \<open>
  Assigning \<^verbatim>\<open>ctx.fillStyle\<close> a string that is not a colour leaves the fill style as
  it was.
\<close>

definition setFillStyle :: "'img platform \<Rightarrow> jsstring \<Rightarrow> 'img canvas \<Rightarrow> 'img canvas" where
  "setFillStyle P str c =
     (case parseColor P str of None \<Rightarrow> c | Some col \<Rightarrow> c\<lparr>fillStyle := col\<rparr>)"

text \<open>
  \<^verbatim>\<open>createImageData(sw, sh)\<close> raises \<^verbatim>\<open>IndexSizeError\<close> when a dimension is zero,
  and otherwise makes \<open>\<bar>sw\<bar> * \<bar>sh\<bar>\<close> transparent pixels; the result here is their number.
\<close>

definition createImageData :: "int \<Rightarrow> int \<Rightarrow> render_error + nat" where
  "createImageData sw sh =
     (if sw = 0 \<or> sh = 0 then Inl IndexSizeError else Inr (nat \<bar>sw\<bar> * nat \<bar>sh\<bar>))"

text \<open>
  The blur draws the canvas onto itself, and \<^verbatim>\<open>drawImage\<close> raises
  \<^verbatim>\<open>InvalidStateError\<close> for a source canvas with a dimension of zero.
  \<^verbatim>\<open>
    if (roughness > 0.01) {
      ctx.filter = `blur(${roughness * 10}px)`;
      ctx.drawImage(canvas, 0, 0);
      ctx.filter = 'none';
    }
  \<close>
\<close>

definition applyRoughness ::
  "'img platform \<Rightarrow> GrainSettings \<Rightarrow> 'img canvas \<Rightarrow> render_error + 'img canvas" where
  "applyRoughness P st c =
     (if roughness st > 0.01
      then (if canvasWidth c = 0 \<or> canvasHeight c = 0 then Inl InvalidStateError
            else Inr (c\<lparr>bitmap := drawBlurred P (roughness st * 10) (bitmap c)\<rparr>))
      else Inr c)"

section \<open>The render\<close>

text \<open>
  The clumping map (\<^verbatim>\<open>clutterData\<close>) and the value of the closure variable after it.
  \<^verbatim>\<open>
    let clutterData = null;
    if (randomness > 0.05) {
      const cW = Math.ceil(noiseW / clutterScale) + 2;
      const cH = Math.ceil(noiseH / clutterScale) + 2;
      const cCtx = clutterCanvas.getContext('2d');
      if (cCtx) {
        const cImgData = cCtx.createImageData(cW, cH);
        for (...) { ... }
        const sCtx = smoothCanvas.getContext('2d');
        if (sCtx) {
          sCtx.drawImage(clutterCanvas, 0, 0, noiseW, noiseH);
          clutterData = sCtx.getImageData(0, 0, noiseW, noiseH).data;
        }
      }
    }
  \<close>
\<close>

definition clutterScale :: real where
  "clutterScale = 50"

definition build_clutter ::
  "'img platform \<Rightarrow> GrainSettings \<Rightarrow> int \<Rightarrow> render_error + (nat list option \<times> int)" where
  "build_clutter P st s =
     (if randomness st > 0.05
      then (let cW = \<lceil>of_int (noiseW st) / clutterScale\<rceil> + 2;
                cH = \<lceil>of_int (noiseH st) / clutterScale\<rceil> + 2
            in if clutterContext P
               then (case createImageData cW cH of
                       Inl e \<Rightarrow> Inl e
                     | Inr n \<Rightarrow>
                         (let (cData, s1) = fill_clutter n s
                          in if smoothContext P
                             then Inr (Some (drawSmooth P cData cW cH (noiseW st) (noiseH st)), s1)
                             else Inr (None, s1)))
               else Inr (None, s))
      else Inr (None, s))"

text \<open>
  The body of the animation-frame callback, on the canvas whose dimensions were set:
  the result is the canvas handed to \<^verbatim>\<open>onCanvasReady\<close>, or the reason why the callback
  ended before.
\<close>

definition noise_data :: "'img platform \<Rightarrow> GrainSettings \<Rightarrow> render_error + nat list" where
  "noise_data P st =
     (case build_clutter P st (createRandom (seed st)) of
        Inl e \<Rightarrow> Inl e
      | Inr (clutterData, s1) \<Rightarrow>
          if \<not> offscreenContext P then Inl NoOffscreenContext
          else (case createImageData (noiseW st) (noiseH st) of
                  Inl e \<Rightarrow> Inl e
                | Inr n \<Rightarrow> Inr (fst (fill_noise st clutterData n 0 s1))))"

definition render :: "'img platform \<Rightarrow> GrainSettings \<Rightarrow> 'img canvas \<Rightarrow> render_error + 'img canvas" where
  "render P st c =
     (let c = setFillStyle P (bgColor st) c;
          c = c\<lparr>bitmap := fillRect P (fillStyle c) (finalWidth st) (finalHeight st) (bitmap c)\<rparr>
      in case noise_data P st of
           Inl e \<Rightarrow> Inl e
         | Inr data \<Rightarrow>
             applyRoughness P st
               (c\<lparr>bitmap := drawNearest P (opacity st) data (noiseW st) (noiseH st)
                                  (finalWidth st) (finalHeight st) (bitmap c)\<rparr>))"

text \<open>
  The effect of the component: without a context nothing is done; otherwise the
  dimensions are set and the callback renders.
\<close>

definition GrainCanvas :: "'img platform \<Rightarrow> GrainSettings \<Rightarrow> 'img canvas \<Rightarrow> render_error + 'img canvas" where
  "GrainCanvas P st c =
     (if \<not> mainContext P then Inl NoContext
      else render P st (setDimensions P (finalWidth st) (finalHeight st) c))"

section \<open>The recipe service\<close>

text \<open>
  \<^verbatim>\<open>fetchGrainRecipes\<close> awaits \<^verbatim>\<open>ai.models.generateContent\<close> and then parses the text
  of the response:
  \<^verbatim>\<open>
    const response = await ai.models.generateContent({...});
    try {
      return JSON.parse(response.text);
    } catch (e) {
      console.error("Failed to parse AI response", e);
      return [];
    }
  \<close>
  The awaited call either rejects, with an exception, or resolves to a response whose
  text may be undefined. \<^verbatim>\<open>JSON.parse\<close> is a parameter: \<open>None\<close> when it raises.
  The result is the value returned or the exception that leaves the function, with the
  lines written to the console.
\<close>

datatype json =
    JNull | JBool bool | JNumber real | JString jsstring | JArray "json list"
  | JObject "(jsstring \<times> json) list"

datatype 'e generate_outcome = Rejected 'e | Resolved "jsstring option"

datatype 'e console_line = FailedToParse | Logged 'e

definition fetchGrainRecipes ::
  "(jsstring \<Rightarrow> json option) \<Rightarrow> 'e generate_outcome \<Rightarrow> ('e + json) \<times> 'e console_line list" where
  "fetchGrainRecipes JSON_parse response =
     (case response of
        Rejected e \<Rightarrow> (Inl e, [])
      | Resolved txt \<Rightarrow>
          (case JSON_parse (case txt of None \<Rightarrow> utf16 ''undefined'' | Some t \<Rightarrow> t) of
             None \<Rightarrow> (Inr (JArray []), [FailedToParse])
           | Some v \<Rightarrow> (Inr v, [])))"

text \<open>
  The caller in the application:
  \<^verbatim>\<open>
    if (!aiPrompt.trim()) return;
    setLoadingAI(true);
    try {
      const recipes = await fetchGrainRecipes(aiPrompt);
      setAiRecipes(recipes);
    } catch (error) {
      console.error(error);
    } finally {
      setLoadingAI(false);
    }
  \<close>
\<close>

record 'e app_state =
  settings :: GrainSettings
  aiRecipes :: json
  loadingAI :: bool
  aiPrompt :: jsstring
  console :: "'e console_line list"

definition trim :: "jsstring \<Rightarrow> jsstring" where
  "trim str = rev (dropWhile isStrWhiteSpace (rev (dropWhile isStrWhiteSpace str)))"

definition handleGenerateAI ::
  "(jsstring \<Rightarrow> json option) \<Rightarrow> 'e generate_outcome \<Rightarrow> 'e app_state \<Rightarrow> 'e app_state" where
  "handleGenerateAI JSON_parse response st =
     (if trim (aiPrompt st) = [] then st
      else (case fetchGrainRecipes JSON_parse response of
              (Inr recipes, out) \<Rightarrow>
                st\<lparr>aiRecipes := recipes, loadingAI := False, console := console st @ out\<rparr>
            | (Inl e, out) \<Rightarrow>
                st\<lparr>loadingAI := False, console := console st @ out @ [Logged e]\<rparr>))"

section \<open>The earlier renderer\<close>

text \<open>
  The repository holds a second, earlier copy of the component, without seed and
  without clumping, whose cell loop draws every number from \<^verbatim>\<open>Math.random()\<close>. The
  generator of the environment is a stream of numbers and a position in it.
  \<^verbatim>\<open>
    case GrainTexture.GAUSSIAN:
      const u = 1 - Math.random();
      const v = 1 - Math.random();
      noise = Math.sqrt(-2.0 * Math.log(u)) * Math.cos(2.0 * Math.PI * v);
      noise = (noise + 3) / 6;
    case GrainTexture.SPECKLE:
      noise = Math.random() > (1 - intensity * 0.8) ? Math.random() : 0.5;
    case GrainTexture.FILM:
      noise = (Math.random() + Math.random() + Math.random()) / 3;
    case GrainTexture.UNIFORM: default:
      noise = Math.random();
    ...
    const effect = noise * intensity;
    if (monochrome) {
      data[i] = gR; data[i+1] = gG; data[i+2] = gB; data[i+3] = effect * 255;
    } else {
      data[i] = Math.random() * 255; data[i+1] = Math.random() * 255;
      data[i+2] = Math.random() * 255; data[i+3] = effect * 255;
    }
  \<close>
\<close>

type_synonym entropy = "nat \<Rightarrow> real"

definition Math_random :: "entropy \<Rightarrow> nat \<Rightarrow> real \<times> nat" where
  "Math_random env pos = (env pos, Suc pos)"

definition legacy_sample_noise :: "entropy \<Rightarrow> GrainTexture \<Rightarrow> real \<Rightarrow> nat \<Rightarrow> real \<times> nat" where
  "legacy_sample_noise env tex inten p =
     (case tex of
        GAUSSIAN \<Rightarrow>
          (let (r1, p1) = Math_random env p; u = 1 - r1;
               (r2, p2) = Math_random env p1; v = 1 - r2;
               noise = sqrt (- 2 * ln u) * cos (2 * pi * v);
               noise = (noise + 3) / 6
           in (noise, p2))
      | SPECKLE \<Rightarrow>
          (let (r1, p1) = Math_random env p
           in if r1 > 1 - inten * 0.8 then Math_random env p1 else (0.5, p1))
      | FILM \<Rightarrow>
          (let (a, p1) = Math_random env p; (b, p2) = Math_random env p1;
               (c, p3) = Math_random env p2
           in ((a + b + c) / 3, p3))
      | UNIFORM \<Rightarrow> Math_random env p)"

definition legacy_noise_cell :: "entropy \<Rightarrow> GrainSettings \<Rightarrow> nat \<Rightarrow> nat list \<times> nat" where
  "legacy_noise_cell env st p =
     (let (noise, p1) = legacy_sample_noise env (texture st) (intensity st) p;
          effect = noise * intensity st;
          alpha = ToUint8Clamp (effect * 255)
      in if monochrome st
         then ([ToUint8Clamp (of_int (gR st)), ToUint8Clamp (of_int (gG st)),
                ToUint8Clamp (of_int (gB st)), alpha], p1)
         else (let (r, p2) = Math_random env p1; (g, p3) = Math_random env p2;
                   (b, p4) = Math_random env p3
               in ([ToUint8Clamp (r * 255), ToUint8Clamp (g * 255), ToUint8Clamp (b * 255),
                    alpha], p4)))"

text \<open>
  The loop over \<open>n\<close> cells and the component, as for the seeded renderer. The position in
  the stream of \<^verbatim>\<open>Math.random()\<close> is state of the environment: a render starts where
  the last call left it, and leaves it further on.
\<close>

fun legacy_fill_noise :: "entropy \<Rightarrow> GrainSettings \<Rightarrow> nat \<Rightarrow> nat \<Rightarrow> nat list \<times> nat" where
  "legacy_fill_noise env st 0 p = ([], p)"
| "legacy_fill_noise env st (Suc n) p =
     (let (px, p1) = legacy_noise_cell env st p;
          (rest, p2) = legacy_fill_noise env st n p1
      in (px @ rest, p2))"

definition legacy_render ::
  "'img platform \<Rightarrow> entropy \<Rightarrow> GrainSettings \<Rightarrow> 'img canvas \<Rightarrow> nat \<Rightarrow>
     (render_error + 'img canvas) \<times> nat" where
  "legacy_render P env st c p =
     (let c = setFillStyle P (bgColor st) c;
          c = c\<lparr>bitmap := fillRect P (fillStyle c) (finalWidth st) (finalHeight st) (bitmap c)\<rparr>
      in if \<not> offscreenContext P then (Inl NoOffscreenContext, p)
         else (case createImageData (noiseW st) (noiseH st) of
                 Inl e \<Rightarrow> (Inl e, p)
               | Inr n \<Rightarrow>
                   (let (data, p1) = legacy_fill_noise env st n p
                    in (applyRoughness P st
                          (c\<lparr>bitmap := drawNearest P (opacity st) data (noiseW st) (noiseH st)
                                             (finalWidth st) (finalHeight st) (bitmap c)\<rparr>),
                        p1))))"

definition legacy_GrainCanvas ::
  "'img platform \<Rightarrow> entropy \<Rightarrow> GrainSettings \<Rightarrow> 'img canvas \<Rightarrow> nat \<Rightarrow>
     (render_error + 'img canvas) \<times> nat" where
  "legacy_GrainCanvas P env st c p =
     (if \<not> mainContext P then (Inl NoContext, p)
      else legacy_render P env st (setDimensions P (finalWidth st) (finalHeight st) c) p)"

section \<open>Example inputs\<close>

text \<open>
  A platform whose bitmaps are byte lists: drawing the noise layer yields its bytes,
  the smooth upscale yields a flat grey map, and only the two colours of the default
  settings are colours. The settings are the defaults on a canvas of two cells, at full
  intensity.
\<close>

definition example_platform :: "nat list platform" where
  "example_platform =
     \<lparr>mainContext = True, clutterContext = True, smoothContext = True, offscreenContext = True,
      parseColor = (\<lambda>str. if str = utf16 ''#FFFFFF'' then Some (255, 255, 255, 1)
                         else if str = utf16 ''#000000'' then Some (0, 0, 0, 1) else None),
      blankBitmap = (\<lambda>w h. []),
      fillRect = (\<lambda>col w h img. img),
      drawSmooth = (\<lambda>src cW cH w h. replicate (4 * nat w * nat h) 128),
      drawNearest = (\<lambda>alpha src w h fw fh img. src),
      drawBlurred = (\<lambda>radius img. img)\<rparr>"

definition two_cells :: GrainSettings where
  "two_cells = DEFAULT_SETTINGS\<lparr>width := 2, height := 1, intensity := 1\<rparr>"

definition used_canvas :: "nat list canvas" where
  "used_canvas = \<lparr>canvasWidth = 300, canvasHeight = 150, bitmap = [1, 2, 3, 4], fillStyle = (9, 9, 9, 1)\<rparr>"

text \<open>
  A stream for \<^verbatim>\<open>Math.random()\<close> that runs through 0, 1/4, 1/2 and 3/4.
\<close>

definition quarters :: entropy where
  "quarters n = real (n mod 4) / 4"

text \<open>
  The default settings (intensity 0.15) on a single cell, with full randomness and the
  seed 8.
\<close>

definition faint_cell :: GrainSettings where
  "faint_cell = DEFAULT_SETTINGS\<lparr>width := 1, height := 1, randomness := 1, seed := 8\<rparr>"


text \<open>An application state with a prompt and a recipe from an earlier request.\<close>

definition example_app :: "unit app_state" where
  "example_app =
     \<lparr>settings = DEFAULT_SETTINGS, aiRecipes = JArray [JString (utf16 ''kept'')],
      loadingAI = False, aiPrompt = utf16 ''film'', console = []\<rparr>"

section \<open>Facts about the generator\<close>

lemma bitlen_le: "n < 2 ^ k \<Longrightarrow> bitlen n \<le> k"
proof (induction k arbitrary: n)
  case 0
  then show ?case by (simp add: bitlen.simps)
next
  case (Suc k)
  show ?case
  proof (cases "n = 0")
    case True
    then show ?thesis by (simp add: bitlen.simps)
  next
    case False
    from Suc.prems have "n div 2 < 2 ^ k" by simp
    then have "bitlen (n div 2) \<le> k" by (rule Suc.IH)
    with False show ?thesis by (subst bitlen.simps) simp
  qed
qed

lemma round_ties_even_0: "round_ties_even x 0 = x"
  by (simp add: round_ties_even_def)

lemma to_double_exact:
  assumes "\<bar>x\<bar> < 2 ^ 53"
  shows "to_double x = x"
proof -
  from assms have "nat \<bar>x\<bar> < 2 ^ 53"
    by (simp add: nat_less_iff)
  then have "bitlen (nat \<bar>x\<bar>) \<le> 53" by (rule bitlen_le)
  then show ?thesis by (simp add: to_double_def round_ties_even_0)
qed

lemma snd_rng: "snd (rng s) = to_double (s + 0x6d2b79f5)"
  by (simp add: rng_def Let_def)

lemma rng_via_mulberry32:
  assumes "to_double (s + 0x6d2b79f5) = s + 0x6d2b79f5"
  shows "fst (rng s) = fst (mulberry32_next (word_of_int s))"
    and "word_of_int (snd (rng s)) = snd (mulberry32_next (word_of_int s))"
  using assms by (simp_all add: rng_def mulberry32_next_def imul_def Let_def)

lemma rng_range: "0 \<le> fst (rng s) \<and> fst (rng s) < 1"
proof -
  obtain w :: int32 where w: "fst (rng s) = real (unat w) / 4294967296"
    by (simp add: rng_def Let_def)
  have "unat w < 2 ^ 32"
    using unsigned_less [of w, where ?'a = nat] by simp
  then have "real (unat w) < real (2 ^ 32)"
    by (simp only: of_nat_less_iff)
  then have lt: "real (unat w) < 4294967296"
    by (simp del: of_nat_unat)
  have ge: "0 \<le> real (unat w)"
    by (simp only: of_nat_0_le_iff)
  from ge lt show ?thesis
    unfolding w by (simp del: of_nat_unat)
qed

lemma draw_range: "0 \<le> draw k s \<and> draw k s < 1"
  by (simp add: draw_def rng_range)

lemma advance_0 [simp]: "advance 0 s = s"
  by (simp add: advance_def)

lemma advance_Suc: "advance (Suc k) s = snd (rng (advance k s))"
  by (simp add: advance_def)

lemma advance_Suc_left: "advance (Suc k) s = advance k (snd (rng s))"
  using funpow_swap1 [of "\<lambda>s. snd (rng s)" k s] by (simp add: advance_def)

lemma advance_add: "advance (j + k) s = advance j (advance k s)"
  by (simp add: advance_def funpow_add)

lemma mulberry32_advance_Suc:
  "mulberry32_advance (Suc k) a = snd (mulberry32_next (mulberry32_advance k a))"
  by (simp add: mulberry32_advance_def)

text \<open>
  While the sum stays below \<open>2 ^ 53\<close> the additions are exact: after \<open>k\<close> calls the
  closure variable holds \<open>seed + k * 0x6d2b79f5\<close>.
\<close>

lemma advance_exact:
  assumes "- (2 ^ 53) < s" and "s + int k * 0x6d2b79f5 < 2 ^ 53"
  shows "advance k s = s + int k * 0x6d2b79f5"
  using assms
proof (induction k)
  case 0
  then show ?case by simp
next
  case (Suc k)
  then have IH: "advance k s = s + int k * 0x6d2b79f5" by simp
  have "\<bar>s + int k * 0x6d2b79f5 + 0x6d2b79f5\<bar> < 2 ^ 53"
    using Suc.prems by (simp add: algebra_simps)
  then have "to_double (s + int k * 0x6d2b79f5 + 0x6d2b79f5) = s + int k * 0x6d2b79f5 + 0x6d2b79f5"
    by (rule to_double_exact)
  then show ?case
    by (simp add: advance_Suc snd_rng IH algebra_simps)
qed

lemma mulberry32_advance_closed:
  "mulberry32_advance k (word_of_int s) = word_of_int (s + int k * 0x6d2b79f5)"
proof (induction k)
  case 0
  then show ?case by (simp add: mulberry32_advance_def)
next
  case (Suc k)
  then show ?case
    by (simp add: mulberry32_advance_Suc mulberry32_next_def Let_def algebra_simps)
qed

text \<open>
  In that range \<open>rng\<close> is Mulberry32: the call of index \<open>k\<close> returns what the 32-bit
  generator returns.
\<close>

lemma draw_is_mulberry32:
  assumes "- (2 ^ 53) < sd" and "sd + int (Suc k) * 0x6d2b79f5 < 2 ^ 53"
  shows "draw k (createRandom sd) = mulberry32_draw k (mulberry32_init sd)"
proof -
  have less: "sd + int k * 0x6d2b79f5 < 2 ^ 53"
    using assms(2) by (simp add: algebra_simps)
  have adv: "advance k sd = sd + int k * 0x6d2b79f5"
    using assms(1) less by (rule advance_exact)
  have "\<bar>sd + int k * 0x6d2b79f5 + 0x6d2b79f5\<bar> < 2 ^ 53"
    using assms by (simp add: algebra_simps)
  then have "to_double (sd + int k * 0x6d2b79f5 + 0x6d2b79f5) = sd + int k * 0x6d2b79f5 + 0x6d2b79f5"
    by (rule to_double_exact)
  then have "fst (rng (sd + int k * 0x6d2b79f5)) =
      fst (mulberry32_next (word_of_int (sd + int k * 0x6d2b79f5)))"
    by (rule rng_via_mulberry32)
  then show ?thesis
    by (simp add: draw_def mulberry32_draw_def createRandom_def mulberry32_init_def adv
        mulberry32_advance_closed)
qed

lemma to_double_even_above: "to_double 9007199260985412 = 9007199260985412"
  by (simp add: to_double_def round_ties_even_def bitlen.simps)

lemma to_double_odd_above: "to_double 9007201092551225 = 9007201092551224"
  by (simp add: to_double_def round_ties_even_def bitlen.simps)

text \<open>
  Claim C2. The generator is equivalent to Mulberry32 with a 32-bit state, for every
  integer seed and every call.

  The closure variable is not a 32-bit state: it is a double that grows by
  \<^verbatim>\<open>0x6d2b79f5\<close> with every call and is never reduced. Up to \<open>2 ^ 53\<close> the additions
  are exact and the generator is Mulberry32 (\<open>draw_is_mulberry32\<close>); beyond, a sum that
  is odd is rounded to an even number, and the numbers drawn leave the Mulberry32
  sequence. With the default seed 12345 the closure variable holds
  \<open>9007199260985412\<close> after 4917759 calls; the next sum, \<open>9007201092551225\<close>, is stored
  as \<open>9007201092551224\<close>, and the call of index 4917759 returns
  \<open>232419860 / 2 ^ 32\<close> where Mulberry32 returns \<open>3100981698 / 2 ^ 32\<close>.
\<close>

theorem rng_leaves_mulberry32:
  "draw 4917759 (createRandom 12345) = 232419860 / 4294967296 \<and>
   mulberry32_draw 4917759 (mulberry32_init 12345) = 3100981698 / 4294967296 \<and>
   draw 4917759 (createRandom 12345) \<noteq> mulberry32_draw 4917759 (mulberry32_init 12345)"
proof -
  have a: "advance 4917758 12345 = 9007197429419599"
    using advance_exact [of 12345 4917758] by simp
  have b: "advance 4917759 12345 = 9007199260985412"
    using advance_Suc [of 4917758 12345] by (simp add: a snd_rng to_double_even_above)
  have "rng 9007199260985412 = (232419860 / 4294967296, 9007201092551224)"
    unfolding rng_def imul_def by (simp add: to_double_odd_above)
  then have code: "draw 4917759 (createRandom 12345) = 232419860 / 4294967296"
    by (simp add: draw_def createRandom_def b)
  have spec: "mulberry32_draw 4917759 (mulberry32_init 12345) = 3100981698 / 4294967296"
    unfolding mulberry32_draw_def mulberry32_init_def mulberry32_advance_closed mulberry32_next_def
    by simp
  from code spec show ?thesis by simp
qed

section \<open>Facts about the noise model\<close>

lemma draw_0: "draw 0 s = fst (rng s)"
  by (simp add: draw_def)

lemma draw_Suc: "draw (Suc k) s = draw k (snd (rng s))"
  by (simp add: draw_def advance_Suc_left)

text \<open>
  Claim C3. For every texture family the noise sample of a cell is the formula of the
  specification on the next draws of the generator: UNIFORM is one draw; GAUSSIAN is
  Box-Muller on \<open>u = 1 - rng()\<close> and \<open>v = 1 - rng()\<close>, rescaled as \<open>(value + 3) / 6\<close>
  and not clamped; SPECKLE draws \<open>r1\<close> and is a second draw if
  \<open>r1 > 1 - intensity * 0.8\<close>, else 0.5 (and then only one draw is consumed); FILM is the
  mean of three draws. The sample times the intensity is the provisional alpha, and
  without a clumping map the byte stored is that product times 255, clamped only by the
  store.
\<close>

theorem sample_noise_formulas:
  "sample_noise UNIFORM i s = (draw 0 s, advance 1 s) \<and>
   sample_noise GAUSSIAN i s =
     ((sqrt (- 2 * ln (1 - draw 0 s)) * cos (2 * pi * (1 - draw 1 s)) + 3) / 6, advance 2 s) \<and>
   sample_noise SPECKLE i s =
     (if draw 0 s > 1 - i * 0.8 then (draw 1 s, advance 2 s) else (0.5, advance 1 s)) \<and>
   sample_noise FILM i s = ((draw 0 s + draw 1 s + draw 2 s) / 3, advance 3 s) \<and>
   fst (cell_effect st None k s) =
     Num (fst (sample_noise (texture st) (intensity st) s) * intensity st) \<and>
   fst (noise_cell st None k s) ! 3 =
     ToUint8Clamp (fst (sample_noise (texture st) (intensity st) s) * intensity st * 255)"
proof -
  have n2: "(2::nat) = Suc (Suc 0)" and n3: "(3::nat) = Suc (Suc (Suc 0))" by simp_all
  have u: "sample_noise UNIFORM i s = (draw 0 s, advance 1 s)"
    by (simp add: sample_noise_def draw_0 advance_Suc)
  have g: "sample_noise GAUSSIAN i s =
     ((sqrt (- 2 * ln (1 - draw 0 s)) * cos (2 * pi * (1 - draw 1 s)) + 3) / 6, advance 2 s)"
    by (simp add: sample_noise_def draw_0 draw_Suc advance_Suc_left n2 split: prod.split)
  have sp: "sample_noise SPECKLE i s =
     (if draw 0 s > 1 - i * 0.8 then (draw 1 s, advance 2 s) else (0.5, advance 1 s))"
    by (simp add: sample_noise_def draw_0 draw_Suc advance_Suc_left n2 split: prod.split)
  have f: "sample_noise FILM i s = ((draw 0 s + draw 1 s + draw 2 s) / 3, advance 3 s)"
    by (simp add: sample_noise_def draw_0 draw_Suc advance_Suc_left n2 n3 split: prod.split)
  have e: "fst (cell_effect st None k s) =
      Num (fst (sample_noise (texture st) (intensity st) s) * intensity st)"
    by (simp add: cell_effect_def apply_clutter_def split: prod.split)
  have a: "fst (noise_cell st None k s) ! 3 =
     ToUint8Clamp (fst (sample_noise (texture st) (intensity st) s) * intensity st * 255)"
    by (simp add: noise_cell_def cell_effect_def apply_clutter_def Let_def split: prod.split)
  from u g sp f e a show ?thesis by blast
qed

section \<open>Facts about clumping\<close>

lemma clump_mask_in_range:
  assumes "r * 0.8 < 1"
  shows "clump_mask r m = Num (min 1 (max 0 ((m - r * 0.8) / (1 - r * 0.8))))"
  using assms by (auto simp add: clump_mask_def js_div_def Let_def min_def max_def)

lemma floor_bounds: "(0::real) \<le> x \<Longrightarrow> x \<le> 1 \<Longrightarrow> 1 / 5 \<le> x * 0.8 + 0.2 \<and> x * 0.8 + 0.2 \<le> 1"
  by simp

lemma ToUint8Clamp_le: "ToUint8Clamp x \<le> 255"
proof (cases "0 < x \<and> x < 255")
  case True
  define f where "f = \<lfloor>x\<rfloor>"
  from True have "f \<le> 254" by (simp add: f_def floor_le_iff)
  then have "nat f \<le> 255" and "nat (f + 1) \<le> 255" by simp_all
  then show ?thesis
    unfolding ToUint8Clamp_def f_def [symmetric] by (simp add: Let_def)
next
  case False
  then show ?thesis by (auto simp add: ToUint8Clamp_def)
qed

lemma ToUint8Clamp_js_le: "ToUint8Clamp_js v \<le> 255"
  by (cases v) (simp_all add: ToUint8Clamp_le)

lemma clump_mask_above:
  assumes "1 < r * 0.8" and "m \<le> 1"
  shows "clump_mask r m = Num 1"
proof -
  let ?q = "(m - r * 0.8) / (1 - r * 0.8)"
  from assms have neg: "1 - r * 0.8 < 0" by simp
  from assms have "m - r * 0.8 \<le> 1 - r * 0.8" by simp
  with neg have "1 \<le> ?q"
    by (simp add: le_divide_eq)
  moreover from neg have "js_div (m - r * 0.8) (1 - r * 0.8) = Num ?q"
    by (simp add: js_div_def)
  ultimately show ?thesis
    by (auto simp add: clump_mask_def Let_def)
qed

lemma clump_mask_at_one:
  assumes "r * 0.8 = 1"
  shows "clump_mask r m = (if m < 1 then Num 0 else if 1 < m then Num 1 else NaN)"
  using assms by (auto simp add: clump_mask_def js_div_def)

text \<open>
  Claim C7. For an out-of-range randomness that makes \<open>threshold = randomness * 0.8\<close>
  reach or exceed 1, the mask is forced to 0 everywhere (multiplier 0.2), and no NaN or
  infinity reaches the pixel data.

  The source has no guard. With a randomness of 2 the threshold is 1.6, the divisor is
  negative, and the mask of a sample 0.5 is 1: the multiplier is 1, not 0.2. With a
  randomness of 1.25 the threshold is 1 and a sample of 1 gives \<open>0 / 0\<close>.
\<close>

theorem clump_out_of_range_counterexample:
  "clump_mask 2 (1 / 2) = Num 1 \<and> clump_multiplier 2 (1 / 2) = Num 1 \<and>
   clump_multiplier 2 (1 / 2) \<noteq> Num (1 / 5) \<and> clump_multiplier (5 / 4) 1 = NaN"
  by (simp add: clump_multiplier_def clump_mask_def js_div_def)

text \<open>
  Claim C7, as the code has it. For a mask sample in \<open>[0, 1]\<close>: when the threshold
  exceeds 1 the mask is 1 and the multiplier is 1 (no masking); when the threshold is
  exactly 1 the division is by zero, the mask is 0 and the multiplier 0.2 for a sample
  below 1, and NaN for the sample 1, which the byte store turns into the alpha 0. In
  every case the alpha stored is a byte.
\<close>

theorem clump_out_of_range:
  assumes "1 \<le> r * 0.8" and "0 \<le> m" and "m \<le> 1"
  shows "clump_multiplier r m =
           (if 1 < r * 0.8 then Num 1 else if m < 1 then Num (1 / 5) else NaN) \<and>
         ToUint8Clamp_js (js_times (js_times_left e (clump_multiplier r m)) 255) \<le> 255 \<and>
         ToUint8Clamp_js (js_times (js_times_left e NaN) 255) = 0"
proof (cases "1 < r * 0.8")
  case True
  with assms have "clump_mask r m = Num 1" by (simp add: clump_mask_above)
  with True show ?thesis
    by (simp add: clump_multiplier_def ToUint8Clamp_js_le ToUint8Clamp_le)
next
  case False
  with assms have "r * 0.8 = 1" by simp
  then have "clump_mask r m = (if m < 1 then Num 0 else if 1 < m then Num 1 else NaN)"
    by (rule clump_mask_at_one)
  with False assms show ?thesis
    by (simp add: clump_multiplier_def ToUint8Clamp_js_le ToUint8Clamp_le)
qed

theorem clump_out_of_range_witness:
  "(1::real) \<le> 2 * 0.8 \<and> (0::real) \<le> 1 / 2 \<and> (1::real) / 2 \<le> 1 \<and>
   clump_multiplier 2 (1 / 2) = Num 1 \<and>
   ToUint8Clamp_js (js_times (js_times_left (1 / 2) (clump_multiplier 2 (1 / 2))) 255) \<le> 255 \<and>
   ToUint8Clamp_js (js_times (js_times_left (1 / 2) NaN) 255) = 0"
  using clump_out_of_range [of 2 "1 / 2" "1 / 2"] by (simp add: ToUint8Clamp_le)

section \<open>Facts about the render\<close>

lemma dims_randomness [simp]:
  "finalWidth (st\<lparr>randomness := r\<rparr>) = finalWidth st"
  "finalHeight (st\<lparr>randomness := r\<rparr>) = finalHeight st"
  "noiseW (st\<lparr>randomness := r\<rparr>) = noiseW st"
  "noiseH (st\<lparr>randomness := r\<rparr>) = noiseH st"
  by (simp_all add: finalWidth_def finalHeight_def noiseW_def noiseH_def noiseScale_def)

lemma dims_colors [simp]:
  "finalWidth (st\<lparr>bgColor := b, grainColor := g\<rparr>) = finalWidth st"
  "finalHeight (st\<lparr>bgColor := b, grainColor := g\<rparr>) = finalHeight st"
  "noiseW (st\<lparr>bgColor := b, grainColor := g\<rparr>) = noiseW st"
  "noiseH (st\<lparr>bgColor := b, grainColor := g\<rparr>) = noiseH st"
  by (simp_all add: finalWidth_def finalHeight_def noiseW_def noiseH_def noiseScale_def)

lemma noise_cell_randomness:
  "noise_cell (st\<lparr>randomness := r\<rparr>) None i s = noise_cell st None i s"
  by (simp add: noise_cell_def cell_effect_def apply_clutter_def gR_def gG_def gB_def Let_def
      split: prod.split)

lemma fill_noise_randomness:
  "fill_noise (st\<lparr>randomness := r\<rparr>) None n i s = fill_noise st None n i s"
  by (induction n arbitrary: i s) (simp_all add: noise_cell_randomness)

lemma build_clutter_below:
  "randomness st \<le> 0.05 \<Longrightarrow> build_clutter P st s = Inr (None, s)"
  by (simp add: build_clutter_def)

lemma noise_data_below:
  assumes "randomness st \<le> 0.05"
  shows "noise_data P st = noise_data P (st\<lparr>randomness := 0\<rparr>)"
proof -
  have "build_clutter P st (createRandom (seed st)) = Inr (None, createRandom (seed st))"
    using assms by (rule build_clutter_below)
  moreover have "build_clutter P (st\<lparr>randomness := 0\<rparr>) (createRandom (seed st)) =
      Inr (None, createRandom (seed st))"
    by (rule build_clutter_below) simp
  ultimately show ?thesis
    by (simp add: noise_data_def fill_noise_randomness split: sum.split)
qed

lemma render_below:
  assumes "randomness st \<le> 0.05"
  shows "render P st c = render P (st\<lparr>randomness := 0\<rparr>) c"
  using noise_data_below [OF assms, of P]
  by (simp add: render_def applyRoughness_def Let_def split: sum.split)

lemma GrainCanvas_ignores_canvas: "GrainCanvas P st c1 = GrainCanvas P st c2"
  by (simp add: GrainCanvas_def setDimensions_def)

lemma setDimensions_dimensions:
  "canvasWidth (setDimensions P w h c) = reflectDimension 300 w"
  "canvasHeight (setDimensions P w h c) = reflectDimension 150 h"
  by (simp_all add: setDimensions_def)

lemma reflectDimension_in_range:
  assumes "0 \<le> x" and "x \<le> 5000"
  shows "reflectDimension dflt x = nat \<lfloor>x\<rfloor>" and "reflectDimension dflt x \<le> 5000"
proof -
  define f where "f = \<lfloor>x\<rfloor>"
  from assms have lo: "0 \<le> f" and hi: "f \<le> 5000"
    by (simp_all add: f_def floor_le_iff)
  then have "f mod 2 ^ 32 = f" by simp
  with assms(1) have u: "toUnsignedLong x = nat f"
    by (simp add: toUnsignedLong_def f_def)
  from hi have "nat f \<le> 5000" by simp
  with u show "reflectDimension dflt x = nat \<lfloor>x\<rfloor>" and "reflectDimension dflt x \<le> 5000"
    by (simp_all add: reflectDimension_def f_def)
qed

lemma reflectDimension_positive:
  assumes "1 \<le> x" and "x \<le> 5000"
  shows "1 \<le> reflectDimension dflt x"
proof -
  define f where "f = \<lfloor>x\<rfloor>"
  from assms have "reflectDimension dflt x = nat f"
    by (simp add: reflectDimension_in_range f_def)
  moreover from assms(1) have "1 \<le> f" by (simp add: f_def le_floor_iff)
  then have "1 \<le> nat f" by simp
  ultimately show ?thesis by simp
qed

lemma applyRoughness_randomness [simp]:
  "applyRoughness P (st\<lparr>randomness := r\<rparr>) c = applyRoughness P st c"
  by (simp add: applyRoughness_def)

lemma applyRoughness_smooth:
  "roughness st \<le> 0.01 \<Longrightarrow> applyRoughness P st c = Inr c"
  by (simp add: applyRoughness_def)

lemma applyRoughness_dimensions:
  assumes "applyRoughness P st c = Inr c'"
  shows "canvasWidth c' = canvasWidth c \<and> canvasHeight c' = canvasHeight c"
  using assms by (auto simp add: applyRoughness_def split: if_splits)


lemma render_keeps_dimensions:
  assumes "render P st c = Inr c'"
  shows "canvasWidth c' = canvasWidth c \<and> canvasHeight c' = canvasHeight c"
  using assms
  by (auto simp add: render_def setFillStyle_def Let_def
      dest!: applyRoughness_dimensions split: sum.splits option.splits)










subsection \<open>The render of the example\<close>

lemma rng_below_2_53:
  assumes "\<bar>s + 0x6d2b79f5\<bar> < 2 ^ 53"
  shows "rng s =
     (real (unat (let t = (word_of_int (s + 0x6d2b79f5) :: int32);
                      t = imul (t XOR drop_bit 15 t) (t OR 1);
                      t = t XOR (t + imul (t XOR drop_bit 7 t) (t OR 61))
                  in t XOR drop_bit 14 t)) / 4294967296,
      s + 0x6d2b79f5)"
  using assms by (simp add: rng_def to_double_exact Let_def)

lemma rng_12345:
  "rng 12345 = (4207900869 / 4294967296, 1831578158)"
  "rng 1831578158 = (1317490944 / 4294967296, 3663143971)"
  "rng 3663143971 = (2079646450 / 4294967296, 5494709784)"
  "rng 5494709784 = (3513001552 / 4294967296, 7326275597)"
  "rng 7326275597 = (2187978186 / 4294967296, 9157841410)"
  "rng 9157841410 = (1492380277 / 4294967296, 10989407223)"
  "rng 10989407223 = (316786230 / 4294967296, 12820973036)"
  "rng 12820973036 = (3291647763 / 4294967296, 14652538849)"
  by (simp_all add: rng_below_2_53 imul_def)

lemma two_cells_fields:
  "texture two_cells = UNIFORM" "intensity two_cells = 1" "monochrome two_cells = True"
  "randomness two_cells = 0" "seed two_cells = 12345" "roughness two_cells = 0"
  "opacity two_cells = 1" "bgColor two_cells = utf16 ''#FFFFFF''"
  "width two_cells = 2" "height two_cells = 1"
  "noiseW two_cells = 2" "noiseH two_cells = 1" "finalWidth two_cells = 2" "finalHeight two_cells = 1"
  by (simp_all add: two_cells_def DEFAULT_SETTINGS_def noiseW_def noiseH_def noiseScale_def
      finalWidth_def finalHeight_def MAX_DIMENSION_def)

lemma two_cells_grain: "gR two_cells = 0" "gG two_cells = 0" "gB two_cells = 0"
  by (simp_all add: gR_def gG_def gB_def two_cells_def DEFAULT_SETTINGS_def hexChannel_def
      slice_js_def utf16_def parseInt16_def isStrWhiteSpace_def hexDigits_def hexDigit_def)

lemma fill_noise_2:
  "fill_noise st cd 2 i s =
     (let (px, s1) = noise_cell st cd i s; (px', s2) = noise_cell st cd (i + 4) s1
      in (px @ px', s2))"
  by (simp add: numeral_2_eq_2 split: prod.split)

lemma cells_mono:
  "noise_cell two_cells None 0 12345 = ([0, 0, 0, 250], 1831578158)"
  "noise_cell two_cells None 4 1831578158 = ([0, 0, 0, 78], 3663143971)"
  by (simp_all add: noise_cell_def cell_effect_def sample_noise_def apply_clutter_def
      two_cells_fields two_cells_grain rng_12345 ToUint8Clamp_def)

lemma two_cells_colour_fields:
  "texture (two_cells\<lparr>monochrome := False\<rparr>) = UNIFORM"
  "intensity (two_cells\<lparr>monochrome := False\<rparr>) = 1"
  "randomness (two_cells\<lparr>monochrome := False\<rparr>) = 0"
  "seed (two_cells\<lparr>monochrome := False\<rparr>) = 12345"
  "noiseW (two_cells\<lparr>monochrome := False\<rparr>) = 2"
  "noiseH (two_cells\<lparr>monochrome := False\<rparr>) = 1"
  by (simp_all add: two_cells_def DEFAULT_SETTINGS_def noiseW_def noiseH_def noiseScale_def
      finalWidth_def finalHeight_def MAX_DIMENSION_def)

lemma cells_colour:
  "noise_cell (two_cells\<lparr>monochrome := False\<rparr>) None 0 12345 = ([78, 123, 209, 250], 7326275597)"
  "noise_cell (two_cells\<lparr>monochrome := False\<rparr>) None 4 7326275597 =
     ([89, 19, 195, 130], 14652538849)"
  by (simp_all add: noise_cell_def cell_effect_def sample_noise_def apply_clutter_def
      two_cells_colour_fields rng_12345 ToUint8Clamp_def)

lemma noise_data_mono:
  "noise_data P two_cells =
     (if offscreenContext P then Inr [0, 0, 0, 250, 0, 0, 0, 78] else Inl NoOffscreenContext)"
  by (simp add: noise_data_def build_clutter_def two_cells_fields createImageData_def
      createRandom_def fill_noise_2 cells_mono)

lemma noise_data_colour:
  "noise_data P (two_cells\<lparr>monochrome := False\<rparr>) =
     (if offscreenContext P then Inr [78, 123, 209, 250, 89, 19, 195, 130]
      else Inl NoOffscreenContext)"
  by (simp add: noise_data_def build_clutter_def two_cells_colour_fields createImageData_def
      createRandom_def fill_noise_2 cells_colour)

lemma example_platform_contexts:
  "mainContext example_platform" "offscreenContext example_platform"
  by (simp_all add: example_platform_def)

lemma example_platform_draws:
  "blankBitmap example_platform w h = []"
  "fillRect example_platform col w h img = img"
  "drawNearest example_platform a src nw nh fw fh img = src"
  "drawBlurred example_platform radius img = img"
  by (simp_all add: example_platform_def)

lemma example_platform_colors:
  "parseColor example_platform (utf16 ''#FFFFFF'') = Some (255, 255, 255, 1)"
  "parseColor example_platform (utf16 ''#GGGGGG'') = None"
  by (simp_all add: example_platform_def utf16_def)

lemma reflectDimension_small:
  "reflectDimension dflt 2 = 2" "reflectDimension dflt 1 = 1" "reflectDimension dflt 0 = 0"
  "reflectDimension dflt (1 / 2) = 0" "reflectDimension dflt (5 / 2) = 2"
  "reflectDimension 300 (- 3) = 300"
  by (simp_all add: reflectDimension_def toUnsignedLong_def)

lemma GrainCanvas_two_cells:
  "GrainCanvas example_platform two_cells c =
     Inr \<lparr>canvasWidth = 2, canvasHeight = 1, bitmap = [0, 0, 0, 250, 0, 0, 0, 78],
          fillStyle = (255, 255, 255, 1)\<rparr>"
  by (simp add: GrainCanvas_def render_def setDimensions_def setFillStyle_def noise_data_mono
      two_cells_fields example_platform_contexts example_platform_draws
      example_platform_colors applyRoughness_smooth reflectDimension_small)

lemma GrainCanvas_rerender:
  "GrainCanvas P st c = Inr c' \<Longrightarrow> GrainCanvas P st c' = Inr c'"
  using GrainCanvas_ignores_canvas [of P st c' c] by simp

subsection \<open>The earlier renderer on the example\<close>

lemma quarters_values:
  "quarters 0 = 0" "quarters (Suc 0) = 1 / 4" "quarters 2 = 1 / 2" "quarters 3 = 3 / 4"
  by (simp_all add: quarters_def)

lemma legacy_fill_noise_2:
  "legacy_fill_noise env st 2 p =
     (let (px, p1) = legacy_noise_cell env st p; (px', p2) = legacy_noise_cell env st p1
      in (px @ px', p2))"
  by (simp add: numeral_2_eq_2 split: prod.split)

lemma legacy_cells:
  "legacy_noise_cell quarters two_cells 0 = ([0, 0, 0, 0], Suc 0)"
  "legacy_noise_cell quarters two_cells (Suc 0) = ([0, 0, 0, 64], 2)"
  "legacy_noise_cell quarters two_cells 2 = ([0, 0, 0, 128], 3)"
  "legacy_noise_cell quarters two_cells 3 = ([0, 0, 0, 191], 4)"
  by (simp_all add: legacy_noise_cell_def legacy_sample_noise_def Math_random_def
      two_cells_fields two_cells_grain quarters_values ToUint8Clamp_def)

lemma legacy_GrainCanvas_first:
  "legacy_GrainCanvas example_platform quarters two_cells c 0 =
     (Inr \<lparr>canvasWidth = 2, canvasHeight = 1, bitmap = [0, 0, 0, 0, 0, 0, 0, 64],
           fillStyle = (255, 255, 255, 1)\<rparr>, 2)"
  by (simp add: legacy_GrainCanvas_def legacy_render_def setDimensions_def setFillStyle_def
      two_cells_fields example_platform_contexts example_platform_draws
      example_platform_colors applyRoughness_smooth reflectDimension_small
      createImageData_def legacy_fill_noise_2 legacy_cells)

lemma legacy_GrainCanvas_second:
  "legacy_GrainCanvas example_platform quarters two_cells c 2 =
     (Inr \<lparr>canvasWidth = 2, canvasHeight = 1, bitmap = [0, 0, 0, 128, 0, 0, 0, 191],
           fillStyle = (255, 255, 255, 1)\<rparr>, 4)"
  by (simp add: legacy_GrainCanvas_def legacy_render_def setDimensions_def setFillStyle_def
      two_cells_fields example_platform_contexts example_platform_draws
      example_platform_colors applyRoughness_smooth reflectDimension_small
      createImageData_def legacy_fill_noise_2 legacy_cells)

text \<open>
  Claim C1. With the settings fixed, two executions of the render give byte-identical
  pixel buffers: the output is a function of the settings, with no dependence on hidden
  state across renders.

  The seeded component does so: it creates its generator from the seed inside the
  render and resets the canvas, so that a render on the canvas a render left gives that
  canvas again (\<open>GrainCanvas_rerender\<close>). The earlier copy of the component that the
  repository also holds does not: its cell loop draws from \<^verbatim>\<open>Math.random()\<close>, whose
  position is state of the environment that one render leaves to the next. With the
  same settings, on two cells at full intensity, and \<^verbatim>\<open>Math.random()\<close> returning 0,
  1/4, 1/2 and 3/4, the first execution stores the alphas 0 and 64 and the second, on
  the canvas the first produced, the alphas 128 and 191.
\<close>

theorem legacy_render_not_deterministic:
  "legacy_GrainCanvas example_platform quarters two_cells used_canvas 0 =
     (Inr \<lparr>canvasWidth = 2, canvasHeight = 1, bitmap = [0, 0, 0, 0, 0, 0, 0, 64],
           fillStyle = (255, 255, 255, 1)\<rparr>, 2) \<and>
   legacy_GrainCanvas example_platform quarters two_cells
     \<lparr>canvasWidth = 2, canvasHeight = 1, bitmap = [0, 0, 0, 0, 0, 0, 0, 64],
      fillStyle = (255, 255, 255, 1)\<rparr> 2 =
     (Inr \<lparr>canvasWidth = 2, canvasHeight = 1, bitmap = [0, 0, 0, 128, 0, 0, 0, 191],
           fillStyle = (255, 255, 255, 1)\<rparr>, 4) \<and>
   GrainCanvas example_platform two_cells used_canvas =
     GrainCanvas example_platform two_cells
       \<lparr>canvasWidth = 2, canvasHeight = 1, bitmap = [0, 0, 0, 0, 0, 0, 0, 64],
        fillStyle = (255, 255, 255, 1)\<rparr>"
  by (simp add: legacy_GrainCanvas_first legacy_GrainCanvas_second GrainCanvas_two_cells)

text \<open>
  Claim C5. A randomness of at most 0.05 gives the output of the randomness 0 with the
  same settings: no clumping map is built, no number is drawn for it, and the noise of
  the cells is the same.
\<close>

theorem randomness_below_threshold:
  assumes "randomness st \<le> 0.05"
  shows "GrainCanvas P st c = GrainCanvas P (st\<lparr>randomness := 0\<rparr>) c \<and>
         build_clutter P st s = Inr (None, s) \<and>
         noise_data P st = noise_data P (st\<lparr>randomness := 0\<rparr>)"
  using assms
  by (simp add: GrainCanvas_def render_below [OF assms] build_clutter_below
      noise_data_below [OF assms])

theorem randomness_below_threshold_witness:
  "randomness (two_cells\<lparr>randomness := 0.05\<rparr>) \<le> 0.05 \<and>
   GrainCanvas example_platform (two_cells\<lparr>randomness := 0.05\<rparr>) used_canvas =
     GrainCanvas example_platform (two_cells\<lparr>randomness := 0\<rparr>) used_canvas \<and>
   build_clutter example_platform (two_cells\<lparr>randomness := 0.05\<rparr>) 12345 = Inr (None, 12345) \<and>
   noise_data example_platform (two_cells\<lparr>randomness := 0.05\<rparr>) =
     noise_data example_platform (two_cells\<lparr>randomness := 0\<rparr>)"
  using randomness_below_threshold [of "two_cells\<lparr>randomness := 0.05\<rparr>" example_platform
      used_canvas 12345]
  by simp

subsection \<open>Dimensions of the canvas\<close>

lemma noise_cell_width [simp]:
  "noise_cell (st\<lparr>width := w\<rparr>) cd i s = noise_cell st cd i s"
  by (simp add: noise_cell_def cell_effect_def gR_def gG_def gB_def Let_def
      split: prod.split)

lemma fill_noise_width [simp]:
  "fill_noise (st\<lparr>width := w\<rparr>) cd n i s = fill_noise st cd n i s"
  by (induction n arbitrary: i s) simp_all

lemma fill_noise_1:
  "fill_noise st cd (Suc 0) i s = noise_cell st cd i s"
  by (simp split: prod.split)

lemma fill_noise_3:
  "fill_noise st cd 3 i s =
     (let (px, s1) = noise_cell st cd i s; (px', s2) = noise_cell st cd (i + 4) s1;
          (px'', s3) = noise_cell st cd (i + 8) s2
      in (px @ px' @ px'', s3))"
  by (simp add: eval_nat_numeral split: prod.split)

lemma cell_mono_third:
  "noise_cell two_cells None 8 3663143971 = ([0, 0, 0, 123], 5494709784)"
  by (simp add: noise_cell_def cell_effect_def sample_noise_def apply_clutter_def
      two_cells_fields two_cells_grain rng_12345 ToUint8Clamp_def)

lemma two_cells_width_fields:
  "randomness (two_cells\<lparr>width := w\<rparr>) = 0" "seed (two_cells\<lparr>width := w\<rparr>) = 12345"
  "roughness (two_cells\<lparr>width := w\<rparr>) = 0" "opacity (two_cells\<lparr>width := w\<rparr>) = 1"
  "bgColor (two_cells\<lparr>width := w\<rparr>) = utf16 ''#FFFFFF''"
  "finalHeight (two_cells\<lparr>width := w\<rparr>) = 1" "noiseH (two_cells\<lparr>width := w\<rparr>) = 1"
  by (simp_all add: two_cells_def DEFAULT_SETTINGS_def noiseH_def noiseScale_def
      finalHeight_def MAX_DIMENSION_def)

lemma ceiling_half: "\<lceil>1 / 2 :: real\<rceil> = 1"
  by (simp add: ceiling_eq_iff)

lemma two_cells_widths:
  "finalWidth (two_cells\<lparr>width := 0\<rparr>) = 0" "noiseW (two_cells\<lparr>width := 0\<rparr>) = 0"
  "finalWidth (two_cells\<lparr>width := 1 / 2\<rparr>) = 1 / 2" "noiseW (two_cells\<lparr>width := 1 / 2\<rparr>) = 1"
  "finalWidth (two_cells\<lparr>width := 5 / 2\<rparr>) = 5 / 2" "noiseW (two_cells\<lparr>width := 5 / 2\<rparr>) = 3"
  by (simp_all add: two_cells_def DEFAULT_SETTINGS_def noiseW_def noiseScale_def
      finalWidth_def MAX_DIMENSION_def ceiling_half)

lemma noise_data_widths:
  "noise_data example_platform (two_cells\<lparr>width := 0\<rparr>) = Inl IndexSizeError"
  "noise_data example_platform (two_cells\<lparr>width := 1 / 2\<rparr>) = Inr [0, 0, 0, 250]"
  "noise_data example_platform (two_cells\<lparr>width := 5 / 2\<rparr>) =
     Inr [0, 0, 0, 250, 0, 0, 0, 78, 0, 0, 0, 123]"
  by (simp_all add: noise_data_def build_clutter_def two_cells_width_fields two_cells_widths
      createImageData_def createRandom_def example_platform_contexts fill_noise_1 fill_noise_3
      cells_mono cell_mono_third)

lemma GrainCanvas_widths:
  "GrainCanvas example_platform (two_cells\<lparr>width := 0\<rparr>) c = Inl IndexSizeError"
  "GrainCanvas example_platform (two_cells\<lparr>width := 1 / 2\<rparr>) c =
     Inr \<lparr>canvasWidth = 0, canvasHeight = 1, bitmap = [0, 0, 0, 250],
          fillStyle = (255, 255, 255, 1)\<rparr>"
  "GrainCanvas example_platform (two_cells\<lparr>width := 5 / 2\<rparr>) c =
     Inr \<lparr>canvasWidth = 2, canvasHeight = 1, bitmap = [0, 0, 0, 250, 0, 0, 0, 78, 0, 0, 0, 123],
          fillStyle = (255, 255, 255, 1)\<rparr>"
  by (simp_all add: GrainCanvas_def render_def setDimensions_def setFillStyle_def
      noise_data_widths two_cells_width_fields two_cells_widths example_platform_contexts
      example_platform_draws example_platform_colors applyRoughness_smooth
      reflectDimension_small)

text \<open>
  Claim C6. The render clamps the dimensions of the output buffer to \<open>[1, 5000]\<close>, for
  every requested width and height, also below 1, so that the buffer produced is
  always at least 1 by 1.

  The render takes the minimum with 5000 and nothing else. A requested width of 0
  stays 0: the canvas is 0 wide and the render ends with \<^verbatim>\<open>IndexSizeError\<close>. A
  requested width of 1/2 gives a canvas 0 wide, on which the render completes.
\<close>

theorem render_dimensions_counterexample:
  "finalWidth (two_cells\<lparr>width := 0\<rparr>) = 0 \<and>
   canvasWidth (setDimensions example_platform (finalWidth (two_cells\<lparr>width := 0\<rparr>))
     (finalHeight (two_cells\<lparr>width := 0\<rparr>)) used_canvas) = 0 \<and>
   GrainCanvas example_platform (two_cells\<lparr>width := 0\<rparr>) used_canvas = Inl IndexSizeError \<and>
   GrainCanvas example_platform (two_cells\<lparr>width := 1 / 2\<rparr>) used_canvas =
     Inr \<lparr>canvasWidth = 0, canvasHeight = 1, bitmap = [0, 0, 0, 250],
          fillStyle = (255, 255, 255, 1)\<rparr>"
  by (simp add: GrainCanvas_widths two_cells_widths setDimensions_dimensions
      reflectDimension_small)

text \<open>
  Claim C6, as the code has it. The render caps each requested dimension at 5000 and
  assigns the capped number to the canvas, which drops its fraction; a render that
  completes leaves the canvas with these dimensions. The render has no lower clamp. For
  a requested dimension of at least 1 the capped dimension lies in \<open>[1, 5000]\<close>, the
  canvas dimension is its integer part and lies in \<open>[1, 5000]\<close>, and the noise
  resolution is at least 1. The lower bound is applied by \<open>updateSetting\<close>, in the
  application: a width or height stored through it lies in \<open>[1, 5000]\<close>. The noise
  resolution is \<open>ceil (dimension / max 1 scale)\<close> of the capped dimension.
\<close>

theorem render_dimensions:
  "finalWidth st = min (width st) 5000 \<and> finalHeight st = min (height st) 5000 \<and>
   (1 \<le> width st \<longrightarrow>
      1 \<le> finalWidth st \<and> finalWidth st \<le> 5000 \<and> 1 \<le> noiseW st \<and>
      reflectDimension 300 (finalWidth st) = nat \<lfloor>finalWidth st\<rfloor> \<and>
      1 \<le> reflectDimension 300 (finalWidth st) \<and> reflectDimension 300 (finalWidth st) \<le> 5000) \<and>
   (1 \<le> height st \<longrightarrow>
      1 \<le> finalHeight st \<and> finalHeight st \<le> 5000 \<and> 1 \<le> noiseH st \<and>
      reflectDimension 150 (finalHeight st) = nat \<lfloor>finalHeight st\<rfloor> \<and>
      1 \<le> reflectDimension 150 (finalHeight st) \<and> reflectDimension 150 (finalHeight st) \<le> 5000) \<and>
   1 \<le> finalWidth (updateSetting (SetWidth v) st) \<and>
   finalWidth (updateSetting (SetWidth v) st) \<le> 5000 \<and>
   1 \<le> finalHeight (updateSetting (SetHeight v) st) \<and>
   finalHeight (updateSetting (SetHeight v) st) \<le> 5000 \<and>
   noiseW st = \<lceil>finalWidth st / max 1 (scale st)\<rceil> \<and>
   noiseH st = \<lceil>finalHeight st / max 1 (scale st)\<rceil> \<and>
   (\<forall>c'. GrainCanvas P st c = Inr c' \<longrightarrow>
      canvasWidth c' = reflectDimension 300 (finalWidth st) \<and>
      canvasHeight c' = reflectDimension 150 (finalHeight st))"
proof -
  have w: "1 \<le> width st \<longrightarrow>
      1 \<le> finalWidth st \<and> finalWidth st \<le> 5000 \<and> 1 \<le> noiseW st \<and>
      reflectDimension 300 (finalWidth st) = nat \<lfloor>finalWidth st\<rfloor> \<and>
      1 \<le> reflectDimension 300 (finalWidth st) \<and> reflectDimension 300 (finalWidth st) \<le> 5000"
  proof
    assume a: "1 \<le> width st"
    then have f: "1 \<le> finalWidth st" "finalWidth st \<le> 5000"
      by (simp_all add: finalWidth_def MAX_DIMENSION_def)
    have "1 \<le> noiseScale st" by (simp add: noiseScale_def)
    with f have "0 < finalWidth st / noiseScale st" by simp
    then have n: "1 \<le> noiseW st" by (simp add: noiseW_def le_ceiling_iff)
    from f have "0 \<le> finalWidth st" by simp
    with f n show "1 \<le> finalWidth st \<and> finalWidth st \<le> 5000 \<and> 1 \<le> noiseW st \<and>
      reflectDimension 300 (finalWidth st) = nat \<lfloor>finalWidth st\<rfloor> \<and>
      1 \<le> reflectDimension 300 (finalWidth st) \<and> reflectDimension 300 (finalWidth st) \<le> 5000"
      using reflectDimension_in_range [of "finalWidth st" 300]
        reflectDimension_positive [of "finalWidth st" 300]
      by blast
  qed
  have h: "1 \<le> height st \<longrightarrow>
      1 \<le> finalHeight st \<and> finalHeight st \<le> 5000 \<and> 1 \<le> noiseH st \<and>
      reflectDimension 150 (finalHeight st) = nat \<lfloor>finalHeight st\<rfloor> \<and>
      1 \<le> reflectDimension 150 (finalHeight st) \<and> reflectDimension 150 (finalHeight st) \<le> 5000"
  proof
    assume a: "1 \<le> height st"
    then have f: "1 \<le> finalHeight st" "finalHeight st \<le> 5000"
      by (simp_all add: finalHeight_def MAX_DIMENSION_def)
    have "1 \<le> noiseScale st" by (simp add: noiseScale_def)
    with f have "0 < finalHeight st / noiseScale st" by simp
    then have n: "1 \<le> noiseH st" by (simp add: noiseH_def le_ceiling_iff)
    from f have "0 \<le> finalHeight st" by simp
    with f n show "1 \<le> finalHeight st \<and> finalHeight st \<le> 5000 \<and> 1 \<le> noiseH st \<and>
      reflectDimension 150 (finalHeight st) = nat \<lfloor>finalHeight st\<rfloor> \<and>
      1 \<le> reflectDimension 150 (finalHeight st) \<and> reflectDimension 150 (finalHeight st) \<le> 5000"
      using reflectDimension_in_range [of "finalHeight st" 150]
        reflectDimension_positive [of "finalHeight st" 150]
      by blast
  qed
  have c: "\<forall>c'. GrainCanvas P st c = Inr c' \<longrightarrow>
      canvasWidth c' = reflectDimension 300 (finalWidth st) \<and>
      canvasHeight c' = reflectDimension 150 (finalHeight st)"
    by (auto simp add: GrainCanvas_def setDimensions_dimensions dest!: render_keeps_dimensions
        split: if_splits)
  have rest: "finalWidth st = min (width st) 5000 \<and> finalHeight st = min (height st) 5000 \<and>
     1 \<le> finalWidth (updateSetting (SetWidth v) st) \<and>
     finalWidth (updateSetting (SetWidth v) st) \<le> 5000 \<and>
     1 \<le> finalHeight (updateSetting (SetHeight v) st) \<and>
     finalHeight (updateSetting (SetHeight v) st) \<le> 5000 \<and>
     noiseW st = \<lceil>finalWidth st / max 1 (scale st)\<rceil> \<and>
     noiseH st = \<lceil>finalHeight st / max 1 (scale st)\<rceil>"
    by (simp add: finalWidth_def finalHeight_def MAX_DIMENSION_def MIN_DIMENSION_def
        noiseW_def noiseH_def noiseScale_def)
  from w h c rest show ?thesis by blast
qed

theorem render_dimensions_witness:
  "1 \<le> width (two_cells\<lparr>width := 5 / 2\<rparr>) \<and> 1 \<le> height (two_cells\<lparr>width := 5 / 2\<rparr>) \<and>
   finalWidth (two_cells\<lparr>width := 5 / 2\<rparr>) = 5 / 2 \<and>
   noiseW (two_cells\<lparr>width := 5 / 2\<rparr>) = 3 \<and>
   reflectDimension 300 (finalWidth (two_cells\<lparr>width := 5 / 2\<rparr>)) = 2 \<and>
   finalWidth (updateSetting (SetWidth 999999) two_cells) = 5000 \<and>
   finalHeight (updateSetting (SetHeight 0) two_cells) = 1 \<and>
   GrainCanvas example_platform (two_cells\<lparr>width := 5 / 2\<rparr>) used_canvas =
     Inr \<lparr>canvasWidth = 2, canvasHeight = 1, bitmap = [0, 0, 0, 250, 0, 0, 0, 78, 0, 0, 0, 123],
          fillStyle = (255, 255, 255, 1)\<rparr>"
  using render_dimensions [of "two_cells\<lparr>width := 5 / 2\<rparr>" 999999 example_platform used_canvas]
  by (simp add: two_cells_fields two_cells_widths GrainCanvas_widths reflectDimension_small
      finalWidth_def finalHeight_def MAX_DIMENSION_def MIN_DIMENSION_def)

section \<open>Masking and the alpha stored\<close>

lemma ToUint8Clamp_positive:
  assumes "1 / 2 < x"
  shows "1 \<le> ToUint8Clamp x"
proof (cases "255 \<le> x")
  case True
  with assms show ?thesis by (simp add: ToUint8Clamp_def)
next
  case False
  define f where "f = \<lfloor>x\<rfloor>"
  from assms have "0 \<le> f" by (simp add: f_def)
  show ?thesis
  proof (cases "f = 0")
    case True
    with assms have "real_of_int f + 1 / 2 < x" by simp
    with assms False True show ?thesis
      unfolding ToUint8Clamp_def f_def [symmetric] by (simp add: Let_def)
  next
    case nonzero: False
    with \<open>0 \<le> f\<close> have "1 \<le> nat f" and "1 \<le> nat (f + 1)" by simp_all
    with assms False show ?thesis
      unfolding ToUint8Clamp_def f_def [symmetric] by (simp add: Let_def)
  qed
qed

lemma fill_clutter_state: "snd (fill_clutter n s) = advance n s"
proof (induction n arbitrary: s)
  case 0
  show ?case by simp
next
  case (Suc n)
  have "snd (fill_clutter (Suc n) s) = snd (fill_clutter n (snd (rng s)))"
    by (simp add: Let_def split: prod.split)
  then show ?case
    by (simp add: Suc.IH advance_Suc_left)
qed

lemma noise_cell_alpha:
  "fst (noise_cell st cd i s) ! 3 = ToUint8Clamp_js (js_times (fst (cell_effect st cd i s)) 255)"
  by (simp add: noise_cell_def Let_def split: prod.split)

lemma cell_effect_masked:
  assumes "i < length cd"
  shows "fst (cell_effect st (Some cd) i s) =
     js_times_left (fst (sample_noise (texture st) (intensity st) s) * intensity st)
       (clump_multiplier (randomness st) (real (cd ! i) / 255))"
  using assms by (simp add: cell_effect_def apply_clutter_def split: prod.split)

subsection \<open>A faint cell\<close>

lemma faint_cell_fields:
  "texture faint_cell = UNIFORM" "intensity faint_cell = 15 / 100" "monochrome faint_cell = True"
  "randomness faint_cell = 1" "seed faint_cell = 8"
  "noiseW faint_cell = 1" "noiseH faint_cell = 1"
  by (simp_all add: faint_cell_def DEFAULT_SETTINGS_def noiseW_def noiseH_def noiseScale_def
      finalWidth_def finalHeight_def MAX_DIMENSION_def)

lemma faint_cell_grain: "gR faint_cell = 0" "gG faint_cell = 0" "gB faint_cell = 0"
  by (simp_all add: gR_def gG_def gB_def faint_cell_def DEFAULT_SETTINGS_def hexChannel_def
      slice_js_def utf16_def parseInt16_def isStrWhiteSpace_def hexDigits_def hexDigit_def)

lemma rng_8:
  "rng 8 = (671282643 / 4294967296, 1831565821)"
  "rng 16484092325 = (258291021 / 4294967296, 18315658138)"
  by (simp_all add: rng_below_2_53 imul_def)

lemma advance_9_8: "advance 9 8 = 16484092325"
  using advance_exact [of 8 9] by simp

lemma clump_multiplier_grey: "clump_multiplier 1 (128 / 255) = Num (1 / 5)"
  by (simp add: clump_multiplier_def clump_mask_def js_div_def)

lemma faint_cells:
  "noise_cell faint_cell None 0 16484092325 = ([0, 0, 0, 2], 18315658138)"
  "noise_cell faint_cell (Some [128, 128, 128, 128]) 0 16484092325 = ([0, 0, 0, 0], 18315658138)"
  "noise_cell faint_cell (Some [128, 128, 128, 128]) 0 8 = ([0, 0, 0, 1], 1831565821)"
  by (simp_all add: noise_cell_def cell_effect_def sample_noise_def apply_clutter_def
      faint_cell_fields faint_cell_grain rng_8 clump_multiplier_grey ToUint8Clamp_def)

lemma example_platform_smooth:
  "clutterContext example_platform" "smoothContext example_platform"
  "drawSmooth example_platform src cW cH 1 1 = [128, 128, 128, 128]"
  by (simp_all add: example_platform_def eval_nat_numeral)

lemma build_clutter_faint:
  "build_clutter example_platform faint_cell 8 = Inr (Some [128, 128, 128, 128], 16484092325)"
proof -
  have "\<lceil>real_of_int 1 / clutterScale\<rceil> + 2 = 3"
    by (simp add: clutterScale_def ceiling_eq_iff)
  moreover have "createImageData 3 3 = Inr 9"
    by (simp add: createImageData_def)
  moreover have "snd (fill_clutter 9 8) = 16484092325"
    by (simp add: fill_clutter_state advance_9_8)
  ultimately show ?thesis
    by (simp add: build_clutter_def faint_cell_fields example_platform_smooth split_beta)
qed

lemma noise_data_faint: "noise_data example_platform faint_cell = Inr [0, 0, 0, 0]"
  by (simp add: noise_data_def faint_cell_fields createRandom_def build_clutter_faint
      example_platform_contexts createImageData_def fill_noise_1 faint_cells)

text \<open>
  Claim C4. For a randomness in \<open>[0, 1]\<close> and a mask sample in \<open>[0, 1]\<close> the masking
  multiplier \<open>mask * 0.8 + 0.2\<close> lies in \<open>[0.2, 1]\<close>, and so no cell's final alpha is
  driven to exactly 0 by masking alone.

  The multiplier does lie in \<open>[0.2, 1]\<close>, but the alpha of a cell is stored as a byte.
  With the default settings on one cell, randomness 1 and seed 8, the clumping map
  takes nine draws and the cell's noise is the tenth, 0.0601; at intensity 0.15 the
  alpha is 2.30, stored as 2 without the mask, and with a map sample of 128 it is 0.46,
  stored as 0.
\<close>

theorem clump_floor_counterexample:
  "noise_data example_platform faint_cell = Inr [0, 0, 0, 0] \<and>
   advance 9 (createRandom (seed faint_cell)) = 16484092325 \<and>
   fst (noise_cell faint_cell None 0 16484092325) = [0, 0, 0, 2] \<and>
   fst (noise_cell faint_cell (Some [128, 128, 128, 128]) 0 16484092325) = [0, 0, 0, 0]"
  by (simp add: noise_data_faint faint_cells faint_cell_fields createRandom_def advance_9_8)

text \<open>
  Claim C4, as the code has it. For a randomness in \<open>[0, 1]\<close> and a cell whose sample
  of the clumping map is a byte, the masking multiplier is a number \<open>k\<close> in
  \<open>[0.2, 1]\<close>; the effect of the cell is the noise times the intensity times \<open>k\<close>,
  which is zero only if the unmasked effect is zero; the alpha stored is the byte
  nearest to 255 times that effect. It is at least 1 whenever 255 times the unmasked
  effect exceeds 2.5; a fainter cell can be stored as 0.
\<close>

theorem clump_multiplier_floor:
  assumes "0 \<le> randomness st" and "randomness st \<le> 1" and "i < length cd" and "cd ! i \<le> 255"
  shows "\<exists>k. clump_multiplier (randomness st) (real (cd ! i) / 255) = Num k \<and>
           1 / 5 \<le> k \<and> k \<le> 1 \<and>
           fst (cell_effect st (Some cd) i s) =
             Num (fst (sample_noise (texture st) (intensity st) s) * intensity st * k) \<and>
           (fst (sample_noise (texture st) (intensity st) s) * intensity st * k = 0 \<longleftrightarrow>
              fst (sample_noise (texture st) (intensity st) s) * intensity st = 0) \<and>
           fst (noise_cell st (Some cd) i s) ! 3 =
             ToUint8Clamp (fst (sample_noise (texture st) (intensity st) s) * intensity st * k * 255) \<and>
           (5 / 2 < fst (sample_noise (texture st) (intensity st) s) * intensity st * 255 \<longrightarrow>
              1 \<le> fst (noise_cell st (Some cd) i s) ! 3)"
proof -
  define r where "r = randomness st"
  define m where "m = real (cd ! i) / 255"
  define e where "e = fst (sample_noise (texture st) (intensity st) s) * intensity st"
  define mask where "mask = min 1 (max 0 ((m - r * 0.8) / (1 - r * 0.8)))"
  define k where "k = mask * 0.8 + 0.2"
  from assms(1,2) have "r * 0.8 < 1" by (simp add: r_def)
  then have "clump_mask r m = Num mask"
    unfolding mask_def by (rule clump_mask_in_range)
  then have eq: "clump_multiplier r m = Num k"
    by (simp add: clump_multiplier_def k_def)
  have "0 \<le> mask" and "mask \<le> 1" by (simp_all add: mask_def)
  then have "1 / 5 \<le> mask * 0.8 + 0.2 \<and> mask * 0.8 + 0.2 \<le> 1" by (rule floor_bounds)
  then have lo: "1 / 5 \<le> k" and hi: "k \<le> 1" by (simp_all add: k_def)
  from lo have "k \<noteq> 0" by simp
  then have zero: "e * k = 0 \<longleftrightarrow> e = 0" by simp
  have effect: "fst (cell_effect st (Some cd) i s) = Num (e * k)"
    using cell_effect_masked [OF assms(3), of st s] eq by (simp add: e_def r_def m_def)
  then have byte: "fst (noise_cell st (Some cd) i s) ! 3 = ToUint8Clamp (e * k * 255)"
    by (simp add: noise_cell_alpha)
  have kept: "5 / 2 < e * 255 \<longrightarrow> 1 \<le> fst (noise_cell st (Some cd) i s) ! 3"
  proof
    assume big: "5 / 2 < e * 255"
    define p where "p = e * k"
    from big have "0 < e" by simp
    with lo have "e * (1 / 5) \<le> e * k" by (intro mult_left_mono) simp_all
    then have "e / 5 \<le> p" by (simp add: p_def)
    with big have "1 / 2 < p * 255" by linarith
    then have "1 / 2 < e * k * 255" by (simp add: p_def)
    then have "1 \<le> ToUint8Clamp (e * k * 255)" by (rule ToUint8Clamp_positive)
    with byte show "1 \<le> fst (noise_cell st (Some cd) i s) ! 3" by simp
  qed
  from eq lo hi effect zero byte kept show ?thesis
    unfolding e_def r_def m_def by blast
qed

theorem clump_multiplier_floor_witness:
  "0 \<le> randomness faint_cell \<and> randomness faint_cell \<le> 1 \<and>
   (0::nat) < length [128, 128, 128, 128 :: nat] \<and> [128, 128, 128, 128 :: nat] ! 0 \<le> 255 \<and>
   5 / 2 < fst (sample_noise (texture faint_cell) (intensity faint_cell) 8) * intensity faint_cell * 255 \<and>
   clump_multiplier (randomness faint_cell) (real ([128, 128, 128, 128] ! 0) / 255) = Num (1 / 5) \<and>
   fst (noise_cell faint_cell (Some [128, 128, 128, 128]) 0 8) ! 3 = 1 \<and>
   1 \<le> fst (noise_cell faint_cell (Some [128, 128, 128, 128]) 0 8) ! 3"
  using clump_multiplier_floor [of faint_cell 0 "[128, 128, 128, 128]" 8]
  by (simp add: faint_cell_fields faint_cells clump_multiplier_grey sample_noise_def rng_8)

section \<open>Facts about colours\<close>












section \<open>Colour mode and the noise of the cells\<close>

lemma cell_effect_monochrome:
  "cell_effect (st\<lparr>monochrome := b\<rparr>) cd i s = cell_effect st cd i s"
  by (simp add: cell_effect_def)

lemma advance_3: "advance 3 s = snd (rng (snd (rng (snd (rng s)))))"
  by (simp add: advance_def eval_nat_numeral)

text \<open>
  Claim C10. Toggling only the monochrome flag changes, for some settings with more
  than one cell, the alpha of the cells from the second on: in colour mode a cell draws
  three more numbers, for its red, green and blue, from the same generator, so the next
  cell's noise is drawn three calls later. In any cell, from the same generator state,
  the two modes store the same alpha and colour mode leaves the state three calls
  further. With the default seed and two cells at full intensity the first alpha is 250
  in both modes and the second is 78 in monochrome and 130 in colour mode.
\<close>

theorem monochrome_shifts_noise:
  "snd (noise_cell (st\<lparr>monochrome := False\<rparr>) cd i s) =
     advance 3 (snd (noise_cell (st\<lparr>monochrome := True\<rparr>) cd i s)) \<and>
   fst (noise_cell (st\<lparr>monochrome := False\<rparr>) cd i s) ! 3 =
     fst (noise_cell (st\<lparr>monochrome := True\<rparr>) cd i s) ! 3 \<and>
   1 < noiseW two_cells * noiseH two_cells \<and>
   noise_data example_platform (two_cells\<lparr>monochrome := True\<rparr>) =
     Inr [0, 0, 0, 250, 0, 0, 0, 78] \<and>
   noise_data example_platform (two_cells\<lparr>monochrome := False\<rparr>) =
     Inr [78, 123, 209, 250, 89, 19, 195, 130]"
proof -
  have state: "snd (noise_cell (st\<lparr>monochrome := False\<rparr>) cd i s) =
     advance 3 (snd (noise_cell (st\<lparr>monochrome := True\<rparr>) cd i s))"
    by (simp add: noise_cell_def cell_effect_monochrome advance_3 Let_def split: prod.split)
  have alpha: "fst (noise_cell (st\<lparr>monochrome := False\<rparr>) cd i s) ! 3 =
     fst (noise_cell (st\<lparr>monochrome := True\<rparr>) cd i s) ! 3"
    by (simp add: noise_cell_def cell_effect_monochrome Let_def split: prod.split)
  have same: "two_cells\<lparr>monochrome := True\<rparr> = two_cells"
    by (simp add: two_cells_def DEFAULT_SETTINGS_def)
  have mono: "noise_data example_platform (two_cells\<lparr>monochrome := True\<rparr>) =
     Inr [0, 0, 0, 250, 0, 0, 0, 78]"
    by (simp add: same noise_data_mono example_platform_contexts)
  have colour: "noise_data example_platform (two_cells\<lparr>monochrome := False\<rparr>) =
     Inr [78, 123, 209, 250, 89, 19, 195, 130]"
    by (simp add: noise_data_colour example_platform_contexts)
  have cells: "1 < noiseW two_cells * noiseH two_cells"
    by (simp add: two_cells_fields)
  from state alpha cells mono colour show ?thesis by blast
qed

section \<open>Facts about the recipe service\<close>

text \<open>
  Claim C9. For every failure of the recipe service, a network error or a parse error,
  \<^verbatim>\<open>fetchGrainRecipes\<close> yields an empty recipe list and does not throw.

  The awaited call is outside the \<^verbatim>\<open>try\<close>: when it rejects, the exception leaves
  \<^verbatim>\<open>fetchGrainRecipes\<close>, and no list is returned.
\<close>

theorem fetchGrainRecipes_counterexample:
  "fetchGrainRecipes (\<lambda>str. None) (Rejected ()) = (Inl (), []) \<and>
   fst (fetchGrainRecipes (\<lambda>str. None) (Rejected ())) \<noteq> Inr (JArray [])"
  by (simp add: fetchGrainRecipes_def)

text \<open>
  Claim C9, as the code has it. A response whose text does not parse gives the empty
  list and one line on the console, and nothing is thrown. A rejected request throws
  out of \<^verbatim>\<open>fetchGrainRecipes\<close>; the caller \<^verbatim>\<open>handleGenerateAI\<close> catches it, writes it
  to the console, and leaves the recipes as they were. In every case the caller ends
  with the settings unchanged, which are all the render reads.
\<close>

theorem fetchGrainRecipes_failures:
  "(JSON_parse (case txt of None \<Rightarrow> utf16 ''undefined'' | Some t \<Rightarrow> t) = None \<longrightarrow>
      fetchGrainRecipes JSON_parse (Resolved txt) = (Inr (JArray []), [FailedToParse]) \<and>
      (trim (aiPrompt app) \<noteq> [] \<longrightarrow>
         aiRecipes (handleGenerateAI JSON_parse (Resolved txt) app) = JArray [])) \<and>
   fetchGrainRecipes JSON_parse (Rejected e) = (Inl e, []) \<and>
   aiRecipes (handleGenerateAI JSON_parse (Rejected e) app) = aiRecipes app \<and>
   (trim (aiPrompt app) \<noteq> [] \<longrightarrow>
      console (handleGenerateAI JSON_parse (Rejected e) app) = console app @ [Logged e]) \<and>
   settings (handleGenerateAI JSON_parse response app) = settings app"
  by (simp add: fetchGrainRecipes_def handleGenerateAI_def
      split: generate_outcome.split option.split sum.split prod.split)

theorem fetchGrainRecipes_failures_witness:
  "(\<lambda>str. None :: json option) (utf16 ''not json'') = None \<and>
   fetchGrainRecipes (\<lambda>str. None) (Resolved (Some (utf16 ''not json'')) :: unit generate_outcome) =
     (Inr (JArray []), [FailedToParse]) \<and>
   trim (aiPrompt example_app) \<noteq> [] \<and>
   aiRecipes (handleGenerateAI (\<lambda>str. None) (Resolved (Some (utf16 ''not json''))) example_app) =
     JArray [] \<and>
   aiRecipes (handleGenerateAI (\<lambda>str. None) (Rejected ()) example_app) = aiRecipes example_app \<and>
   console (handleGenerateAI (\<lambda>str. None) (Rejected ()) example_app) = [Logged ()]"
  using fetchGrainRecipes_failures [of "\<lambda>str. None" "Some (utf16 ''not json'')" example_app "()"
      "Rejected ()"]
  by (simp add: example_app_def trim_def utf16_def isStrWhiteSpace_def handleGenerateAI_def
      fetchGrainRecipes_def)

end
